theory Spec2Isabelle
  imports Main "HOL-Library.Monad_Syntax" "HOL-Library.Sublist"
begin

section \<open>The document tree\<close>

text \<open>
  The validator of \<^verbatim>\<open>main.go\<close> walks the tree of \<^verbatim>\<open>yaml.Node\<close> values that the
  YAML parser returns. A node carries its kind, the tag of a scalar, the text of a scalar,
  its source line and its children (\<^verbatim>\<open>Content\<close>). The children of a mapping are a flat
  list: key, value, key, value, ...

  \<^verbatim>\<open>main.go\<close> holds two programs, one after the other: the second (from line 462 on) is
  a revision of the first. The definitions follow the second one (reporter methods
  \<^verbatim>\<open>addRequiredNoLine\<close> and \<^verbatim>\<open>addRequiredAt\<close>, a separate \<^verbatim>\<open>validateContainer\<close>);
  the functions of the first that differ from it are modelled after them, under names
  ending in \<open>_rev1\<close>.
\<close>

datatype kind = ZeroKind | DocumentNode | SequenceNode | MappingNode | ScalarNode | AliasNode

datatype node = Node (Kind: kind) (Tag: string) (Value: string) (Line: int) (Content: "node list")

section \<open>The reporter\<close>

record errOut =
  "file" :: string
  line :: int
  msg :: string

record reporter =
  "file" :: string
  errs :: "errOut list"

definition add :: "reporter \<Rightarrow> int \<Rightarrow> string \<Rightarrow> reporter" where
  "add r l m =
     r\<lparr>errs := errs r @ [\<lparr>errOut.file = reporter.file r, line = l, msg = m\<rparr>]\<rparr>"

definition addRequiredNoLine :: "reporter \<Rightarrow> string \<Rightarrow> reporter" where
  "addRequiredNoLine r field =
     r\<lparr>errs := errs r @
       [\<lparr>errOut.file = reporter.file r, line = 0, msg = field @ '' is required''\<rparr>]\<rparr>"

definition addRequiredAt :: "reporter \<Rightarrow> int \<Rightarrow> string \<Rightarrow> reporter" where
  "addRequiredAt r l field =
     r\<lparr>errs := errs r @
       [\<lparr>errOut.file = reporter.file r, line = l, msg = field @ '' is required''\<rparr>]\<rparr>"

text \<open>The first revision has one method for a missing field, \<^verbatim>\<open>addRequired\<close>.\<close>

definition addRequired :: "reporter \<Rightarrow> string \<Rightarrow> reporter" where
  "addRequired r field =
     r\<lparr>errs := errs r @
       [\<lparr>errOut.file = reporter.file r, line = 0, msg = field @ '' is required''\<rparr>]\<rparr>"

definition hasErrors :: "reporter \<Rightarrow> bool" where
  "hasErrors r = (length (errs r) > 0)"

section \<open>Strings, regular expressions and number parsing of the Go library\<close>

text \<open>
  A Go string is a sequence of bytes, here a \<^typ>\<open>string\<close>. The library functions the
  validator calls are modelled from their documentation.

  \<^verbatim>\<open>strings.TrimSpace\<close> removes the leading and trailing white space of a UTF-8 text, as
  Unicode defines it: the ASCII characters tab, line feed, vertical tab, form feed,
  carriage return and space, and U+0085, U+00A0, U+1680, U+2000 to U+200A, U+2028, U+2029,
  U+202F, U+205F, U+3000. \<open>spaceRunes\<close> lists their UTF-8 encodings.
\<close>

definition spaceRunes :: "string list" where
  "spaceRunes =
     [[CHR 0x09], [CHR 0x0A], [CHR 0x0B], [CHR 0x0C], [CHR 0x0D], [CHR 0x20],
      [CHR 0xC2, CHR 0x85], [CHR 0xC2, CHR 0xA0],
      [CHR 0xE1, CHR 0x9A, CHR 0x80],
      [CHR 0xE2, CHR 0x80, CHR 0x80], [CHR 0xE2, CHR 0x80, CHR 0x81],
      [CHR 0xE2, CHR 0x80, CHR 0x82], [CHR 0xE2, CHR 0x80, CHR 0x83],
      [CHR 0xE2, CHR 0x80, CHR 0x84], [CHR 0xE2, CHR 0x80, CHR 0x85],
      [CHR 0xE2, CHR 0x80, CHR 0x86], [CHR 0xE2, CHR 0x80, CHR 0x87],
      [CHR 0xE2, CHR 0x80, CHR 0x88], [CHR 0xE2, CHR 0x80, CHR 0x89],
      [CHR 0xE2, CHR 0x80, CHR 0x8A],
      [CHR 0xE2, CHR 0x80, CHR 0xA8], [CHR 0xE2, CHR 0x80, CHR 0xA9],
      [CHR 0xE2, CHR 0x80, CHR 0xAF],
      [CHR 0xE2, CHR 0x81, CHR 0x9F],
      [CHR 0xE3, CHR 0x80, CHR 0x80]]"

text \<open>\<open>stripLeading ps s\<close> removes from the front of \<open>s\<close> every occurrence of a text of \<open>ps\<close>.\<close>

function stripLeading :: "string list \<Rightarrow> string \<Rightarrow> string" where
  "stripLeading ps s =
     (case find (\<lambda>p. p \<noteq> [] \<and> prefix p s) ps of
        None \<Rightarrow> s
      | Some p \<Rightarrow> stripLeading ps (drop (length p) s))"
  by pat_completeness auto
termination
proof (relation "measure (\<lambda>(ps, s). length s)")
  show "wf (measure (\<lambda>(ps, s). length s))" by simp
next
  fix ps :: "string list" and s p :: string
  assume "find (\<lambda>p. p \<noteq> [] \<and> prefix p s) ps = Some p"
  then have "p \<noteq> []" and "prefix p s"
    by (auto simp: find_Some_iff)
  then have "0 < length p" and "length p \<le> length s"
    by (auto simp: prefix_length_le)
  then have "length s - length p < length s"
    by arith
  then show "((ps, drop (length p) s), (ps, s)) \<in> measure (\<lambda>(ps, s). length s)"
    by simp
qed

declare stripLeading.simps [simp del]

definition TrimSpace :: "string \<Rightarrow> string" where
  "TrimSpace s = rev (stripLeading (map rev spaceRunes) (rev (stripLeading spaceRunes s)))"

text \<open>
  \<^verbatim>\<open>strings.HasPrefix\<close>.
\<close>

definition HasPrefix :: "string \<Rightarrow> string \<Rightarrow> bool" where
  "HasPrefix s p = (take (length p) s = p)"

text \<open>
  The regular expressions are anchored at both ends and Go's \<^verbatim>\<open>$\<close> matches at the end of
  the text only, so each is a predicate on the whole text:
  \<^verbatim>\<open>reSnake = ^[a-z][a-z0-9_]*$\<close>, \<^verbatim>\<open>reMem = ^\d+(Gi|Mi|Ki)$\<close>,
  \<^verbatim>\<open>reImage = ^registry\.bigbrother\.io/.+:.+$\<close> (where \<^verbatim>\<open>.\<close> is any character but a
  line feed).
\<close>

definition isLower :: "char \<Rightarrow> bool" where
  "isLower c = (c \<in> set ''abcdefghijklmnopqrstuvwxyz'')"

definition isDigit :: "char \<Rightarrow> bool" where
  "isDigit c = (c \<in> set ''0123456789'')"

definition reSnake :: "string \<Rightarrow> bool" where
  "reSnake s =
     (case s of
        [] \<Rightarrow> False
      | c # cs \<Rightarrow> isLower c \<and> list_all (\<lambda>d. isLower d \<or> isDigit d \<or> d = CHR ''_'') cs)"

definition reMem :: "string \<Rightarrow> bool" where
  "reMem s =
     (let ds = takeWhile isDigit s; u = dropWhile isDigit s
      in ds \<noteq> [] \<and> (u = ''Gi'' \<or> u = ''Mi'' \<or> u = ''Ki''))"

definition reImage :: "string \<Rightarrow> bool" where
  "reImage s =
     (let p = ''registry.bigbrother.io/''; r = drop (length p) s
      in take (length p) s = p \<and> CHR 0x0A \<notin> set r \<and>
         list_ex (\<lambda>i. r ! i = CHR '':'') [1 ..< length r - 1])"

text \<open>
  \<^verbatim>\<open>strconv.Atoi\<close> accepts an optional sign \<^verbatim>\<open>+\<close> or \<^verbatim>\<open>-\<close> followed by one or more
  decimal digits, and fails (with a \<^verbatim>\<open>*strconv.NumError\<close>) on any other text and on a
  value outside the range of \<^verbatim>\<open>int\<close>, taken as 64 bits wide.
\<close>

datatype error = NumError | NotInt

definition digitVal :: "char \<Rightarrow> int" where
  "digitVal c = int (of_char c) - 48"

fun parseDigits :: "string \<Rightarrow> int \<Rightarrow> int option" where
  "parseDigits [] acc = Some acc"
| "parseDigits (c # cs) acc =
     (if isDigit c then parseDigits cs (acc * 10 + digitVal c) else None)"

definition Atoi :: "string \<Rightarrow> error + int" where
  "Atoi s =
     (case s of
        [] \<Rightarrow> Inl NumError
      | c # cs \<Rightarrow>
          (let neg = (c = CHR ''-'');
               body = (if c = CHR ''-'' \<or> c = CHR ''+'' then cs else s)
           in if body = [] then Inl NumError
              else (case parseDigits body 0 of
                      None \<Rightarrow> Inl NumError
                    | Some n \<Rightarrow>
                        (let v = (if neg then - n else n)
                         in if v < - (2 ^ 63) \<or> 2 ^ 63 - 1 < v then Inl NumError
                            else Inr v))))"

section \<open>YAML helpers\<close>

text \<open>
  \<^verbatim>\<open>getField\<close> steps through the children of a mapping two at a time and reads
  \<^verbatim>\<open>Content[i]\<close> and \<^verbatim>\<open>Content[i+1]\<close> before it compares the key. On a list of odd
  length the second read is out of range and the Go program panics: the result \<open>None\<close>.
  Otherwise the result is \<open>Some\<close> of what the function returns: the value node of the
  first pair whose key is a scalar with the text \<open>key\<close>, or that there is none.
\<close>

datatype field = Absent | Found node

fun getFieldLoop :: "node list \<Rightarrow> string \<Rightarrow> field option" where
  "getFieldLoop [] key = Some Absent"
| "getFieldLoop [k] key = None"
| "getFieldLoop (k # v # rest) key =
     (if Kind k = ScalarNode \<and> Value k = key then Some (Found v) else getFieldLoop rest key)"

definition getField :: "node \<Rightarrow> string \<Rightarrow> field option" where
  "getField obj key =
     (if Kind obj \<noteq> MappingNode then Some Absent else getFieldLoop (Content obj) key)"

text \<open>
  \<^verbatim>\<open>asInt\<close> returns a value, the node's line and an error; the value is read by the callers
  only when there is no error, so the model returns the line and either the error or the
  value.
\<close>

definition asInt :: "node \<Rightarrow> (error + int) \<times> int" where
  "asInt n =
     (if Kind n = ScalarNode then
        (if Tag n = ''!!int'' then (Atoi (Value n), Line n)
         else if Tag n = ''!!str'' then
           (case Atoi (TrimSpace (Value n)) of
              Inl e \<Rightarrow> (Inl NotInt, Line n)
            | Inr v \<Rightarrow> (Inr v, Line n))
         else (Inl NotInt, Line n))
      else (Inl NotInt, Line n))"


section \<open>The validators\<close>

text \<open>
  A validator takes the reporter and returns it with the diagnostics appended, or \<open>None\<close>
  when a \<^verbatim>\<open>getField\<close> or a loop over the pairs of a mapping panics. Each validator checks
  its fields one after the other; the check of one field is a definition of its own, named
  after the validator and the field, and the validator runs them in the order of the source.
  \<^verbatim>\<open>fmt.Sprintf("... '%s'", v)\<close> puts the value between single quotes.
\<close>

definition quoted :: "string \<Rightarrow> string" where
  "quoted v = [CHR 0x27] @ v @ [CHR 0x27]"

definition validOS :: "string set" where
  "validOS = {''linux'', ''windows''}"

definition validProtocol :: "string set" where
  "validProtocol = {''TCP'', ''UDP''}"

definition notStr :: "node \<Rightarrow> bool" where
  "notStr n = (Kind n \<noteq> ScalarNode \<or> Tag n \<noteq> ''!!str'')"

subsection \<open>ObjectMeta\<close>

definition validateObjectMeta_name :: "node \<Rightarrow> reporter \<Rightarrow> reporter option" where
  "validateObjectMeta_name n rep = do {
     f \<leftarrow> getField n ''name'';
     Some (case f of
        Absent \<Rightarrow> addRequiredNoLine rep ''metadata.name''
      | Found name \<Rightarrow>
          if notStr name then add rep (Line name) ''name must be string''
          else if TrimSpace (Value name) = [] then addRequiredAt rep (Line name) ''name''
          else rep)
   }"

definition validateObjectMeta_namespace :: "node \<Rightarrow> reporter \<Rightarrow> reporter option" where
  "validateObjectMeta_namespace n rep = do {
     f \<leftarrow> getField n ''namespace'';
     Some (case f of
        Absent \<Rightarrow> rep
      | Found ns \<Rightarrow> if notStr ns then add rep (Line ns) ''namespace must be string'' else rep)
   }"

fun labelsLoop :: "node list \<Rightarrow> reporter \<Rightarrow> reporter option" where
  "labelsLoop [] rep = Some rep"
| "labelsLoop [k] rep = None"
| "labelsLoop (k # v # rest) rep =
     (let rep1 = (if notStr k then add rep (Line k) ''labels key must be string'' else rep);
          rep2 = (if notStr v then add rep1 (Line v) ''labels value must be string'' else rep1)
      in labelsLoop rest rep2)"

definition validateObjectMeta_labels :: "node \<Rightarrow> reporter \<Rightarrow> reporter option" where
  "validateObjectMeta_labels n rep = do {
     f \<leftarrow> getField n ''labels'';
     case f of
        Absent \<Rightarrow> Some rep
      | Found labels \<Rightarrow>
          if Kind labels \<noteq> MappingNode then Some (add rep (Line labels) ''labels must be object'')
          else labelsLoop (Content labels) rep
   }"

definition validateObjectMeta :: "node \<Rightarrow> reporter \<Rightarrow> reporter option" where
  "validateObjectMeta n rep = do {
     rep \<leftarrow> validateObjectMeta_name n rep;
     rep \<leftarrow> validateObjectMeta_namespace n rep;
     validateObjectMeta_labels n rep
   }"

subsection \<open>ContainerPort\<close>

definition inPortRange :: "int \<Rightarrow> bool" where
  "inPortRange ival = (\<not> (ival \<le> 0 \<or> ival \<ge> 65536))"

definition validateContainerPort_containerPort :: "node \<Rightarrow> reporter \<Rightarrow> reporter option" where
  "validateContainerPort_containerPort n rep = do {
     f \<leftarrow> getField n ''containerPort'';
     Some (case f of
        Absent \<Rightarrow> addRequiredNoLine rep ''ports.containerPort''
      | Found cp \<Rightarrow>
          (case asInt cp of
             (Inl err, ln) \<Rightarrow> add rep ln ''containerPort must be int''
           | (Inr ival, ln) \<Rightarrow>
               if ival \<le> 0 \<or> ival \<ge> 65536 then add rep ln ''containerPort value out of range''
               else rep))
   }"

definition validateContainerPort_protocol :: "node \<Rightarrow> reporter \<Rightarrow> reporter option" where
  "validateContainerPort_protocol n rep = do {
     f \<leftarrow> getField n ''protocol'';
     Some (case f of
        Absent \<Rightarrow> rep
      | Found pr \<Rightarrow>
          if notStr pr then add rep (Line pr) ''protocol must be string''
          else if Value pr \<notin> validProtocol then
            add rep (Line pr) (''protocol has unsupported value '' @ quoted (Value pr))
          else rep)
   }"

definition validateContainerPort :: "node \<Rightarrow> reporter \<Rightarrow> reporter option" where
  "validateContainerPort n rep = do {
     rep \<leftarrow> validateContainerPort_containerPort n rep;
     validateContainerPort_protocol n rep
   }"

subsection \<open>Probe\<close>

definition validateProbe_path :: "node \<Rightarrow> reporter \<Rightarrow> string \<Rightarrow> reporter option" where
  "validateProbe_path hg rep pfx = do {
     f \<leftarrow> getField hg ''path'';
     Some (case f of
        Absent \<Rightarrow> addRequiredNoLine rep (pfx @ ''.httpGet.path'')
      | Found path \<Rightarrow>
          if notStr path then add rep (Line path) ''path must be string''
          else if \<not> HasPrefix (Value path) ''/'' then
            add rep (Line path) (''path has invalid format '' @ quoted (Value path))
          else rep)
   }"

definition validateProbe_port :: "node \<Rightarrow> reporter \<Rightarrow> string \<Rightarrow> reporter option" where
  "validateProbe_port hg rep pfx = do {
     f \<leftarrow> getField hg ''port'';
     Some (case f of
        Absent \<Rightarrow> addRequiredNoLine rep (pfx @ ''.httpGet.port'')
      | Found port \<Rightarrow>
          (case asInt port of
             (Inl err, ln) \<Rightarrow> add rep ln ''port must be int''
           | (Inr ival, ln) \<Rightarrow>
               if ival \<le> 0 \<or> ival \<ge> 65536 then add rep ln ''port value out of range''
               else rep))
   }"

definition validateProbe :: "node \<Rightarrow> reporter \<Rightarrow> string \<Rightarrow> reporter option" where
  "validateProbe n rep pfx =
     (if Kind n \<noteq> MappingNode then Some (add rep (Line n) (pfx @ '' must be object''))
      else do {
        f \<leftarrow> getField n ''httpGet'';
        case f of
           Absent \<Rightarrow> Some (addRequiredNoLine rep (pfx @ ''.httpGet''))
         | Found hg \<Rightarrow>
             if Kind hg \<noteq> MappingNode then Some (add rep (Line hg) ''httpGet must be object'')
             else do {
               rep \<leftarrow> validateProbe_path hg rep pfx;
               validateProbe_port hg rep pfx
             }
      })"

subsection \<open>Resources\<close>

definition validateResKV_entry :: "node \<Rightarrow> node \<Rightarrow> reporter \<Rightarrow> string \<Rightarrow> reporter" where
  "validateResKV_entry k v rep pfx =
     (if notStr k then add rep (Line k) (pfx @ '' key must be string'')
      else if Value k = ''cpu'' then
        (case asInt v of
           (Inl err, ln) \<Rightarrow> add rep ln ''cpu must be int''
         | (Inr ival, ln) \<Rightarrow>
             if ival < 0 then add rep ln ''cpu value out of range'' else rep)
      else if Value k = ''memory'' then
        (if notStr v then add rep (Line v) ''memory must be string''
         else if \<not> reMem (Value v) then
           add rep (Line v) (pfx @ ''.memory has invalid format '' @ quoted (Value v))
         else rep)
      else rep)"

fun validateResKV_loop :: "node list \<Rightarrow> reporter \<Rightarrow> string \<Rightarrow> reporter option" where
  "validateResKV_loop [] rep pfx = Some rep"
| "validateResKV_loop [k] rep pfx = None"
| "validateResKV_loop (k # v # rest) rep pfx =
     validateResKV_loop rest (validateResKV_entry k v rep pfx) pfx"

definition validateResKV :: "node \<Rightarrow> reporter \<Rightarrow> string \<Rightarrow> reporter option" where
  "validateResKV n rep pfx =
     (if Kind n \<noteq> MappingNode then Some (add rep (Line n) (pfx @ '' must be object''))
      else validateResKV_loop (Content n) rep pfx)"

definition validateResources :: "node \<Rightarrow> reporter \<Rightarrow> reporter option" where
  "validateResources n rep =
     (if Kind n \<noteq> MappingNode then Some (add rep (Line n) ''resources must be object'')
      else do {
        f \<leftarrow> getField n ''limits'';
        rep \<leftarrow> (case f of
                  Absent \<Rightarrow> Some rep
                | Found lim \<Rightarrow> validateResKV lim rep ''resources.limits'');
        g \<leftarrow> getField n ''requests'';
        case g of
           Absent \<Rightarrow> Some rep
         | Found req \<Rightarrow> validateResKV req rep ''resources.requests''
      })"


subsection \<open>Container\<close>

text \<open>
  \<^verbatim>\<open>seen\<close> is the \<^verbatim>\<open>map[string]struct{}\<close> of the container names met so far in the Pod: a
  set of strings, which the check of \<^verbatim>\<open>name\<close> returns updated beside the reporter.
\<close>

definition duplicateMsg :: string where
  "duplicateMsg = ''name has invalid format '' @ quoted ''duplicate''"

definition validateContainer_name ::
  "node \<Rightarrow> reporter \<Rightarrow> string set \<Rightarrow> (reporter \<times> string set) option" where
  "validateContainer_name item rep seen = do {
     f \<leftarrow> getField item ''name'';
     Some (case f of
        Absent \<Rightarrow> (addRequiredNoLine rep ''containers.name'', seen)
      | Found nameNode \<Rightarrow>
          if notStr nameNode then (add rep (Line nameNode) ''name must be string'', seen)
          else if TrimSpace (Value nameNode) = [] then
            (addRequiredAt rep (Line nameNode) ''name'', seen)
          else if \<not> reSnake (Value nameNode) then
            (add rep (Line nameNode) (''name has invalid format '' @ quoted (Value nameNode)),
             seen)
          else
            (let cname = Value nameNode
             in (if cname \<in> seen then add rep (Line nameNode) duplicateMsg else rep,
                 insert cname seen)))
   }"

definition validateContainer_image :: "node \<Rightarrow> reporter \<Rightarrow> reporter option" where
  "validateContainer_image item rep = do {
     f \<leftarrow> getField item ''image'';
     Some (case f of
        Absent \<Rightarrow> addRequiredNoLine rep ''containers.image''
      | Found img \<Rightarrow>
          if notStr img then add rep (Line img) ''image must be string''
          else if \<not> reImage (Value img) then
            add rep (Line img) (''image has invalid format '' @ quoted (Value img))
          else rep)
   }"

fun portsLoop :: "node list \<Rightarrow> reporter \<Rightarrow> reporter option" where
  "portsLoop [] rep = Some rep"
| "portsLoop (pn # pns) rep =
     (if Kind pn \<noteq> MappingNode then portsLoop pns (add rep (Line pn) ''ports item must be object'')
      else do {
        rep \<leftarrow> validateContainerPort pn rep;
        portsLoop pns rep
      })"

definition validateContainer_ports :: "node \<Rightarrow> reporter \<Rightarrow> reporter option" where
  "validateContainer_ports item rep = do {
     f \<leftarrow> getField item ''ports'';
     case f of
        Absent \<Rightarrow> Some rep
      | Found ports \<Rightarrow>
          if Kind ports \<noteq> SequenceNode then Some (add rep (Line ports) ''ports must be array'')
          else portsLoop (Content ports) rep
   }"

definition validateContainer_probe :: "node \<Rightarrow> reporter \<Rightarrow> string \<Rightarrow> reporter option" where
  "validateContainer_probe item rep pfx = do {
     f \<leftarrow> getField item pfx;
     case f of
        Absent \<Rightarrow> Some rep
      | Found p \<Rightarrow> validateProbe p rep pfx
   }"

definition validateContainer_resources :: "node \<Rightarrow> reporter \<Rightarrow> reporter option" where
  "validateContainer_resources item rep = do {
     f \<leftarrow> getField item ''resources'';
     case f of
        Absent \<Rightarrow> Some (addRequiredNoLine rep ''containers.resources'')
      | Found res \<Rightarrow> validateResources res rep
   }"

text \<open>The checks of a container that come after the one of its name.\<close>

definition validateContainer_rest :: "node \<Rightarrow> reporter \<Rightarrow> reporter option" where
  "validateContainer_rest item rep = do {
     rep \<leftarrow> validateContainer_image item rep;
     rep \<leftarrow> validateContainer_ports item rep;
     rep \<leftarrow> validateContainer_probe item rep ''readinessProbe'';
     rep \<leftarrow> validateContainer_probe item rep ''livenessProbe'';
     validateContainer_resources item rep
   }"

definition validateContainer ::
  "node \<Rightarrow> reporter \<Rightarrow> string set \<Rightarrow> (reporter \<times> string set) option" where
  "validateContainer item rep seen = do {
     (rep, seen) \<leftarrow> validateContainer_name item rep seen;
     rep \<leftarrow> validateContainer_rest item rep;
     Some (rep, seen)
   }"

subsection \<open>PodSpec\<close>

definition validatePodSpec_os :: "node \<Rightarrow> reporter \<Rightarrow> reporter option" where
  "validatePodSpec_os n rep = do {
     f \<leftarrow> getField n ''os'';
     case f of
        Absent \<Rightarrow> Some rep
      | Found osNode \<Rightarrow>
          (case Kind osNode of
             ScalarNode \<Rightarrow>
               Some (if Tag osNode \<noteq> ''!!str'' then add rep (Line osNode) ''os must be string''
                     else if Value osNode \<notin> validOS then
                       add rep (Line osNode) (''os has unsupported value '' @ quoted (Value osNode))
                     else rep)
           | MappingNode \<Rightarrow> do {
               g \<leftarrow> getField osNode ''name'';
               Some (case g of
                  Absent \<Rightarrow> addRequiredNoLine rep ''spec.os.name''
                | Found nameNode \<Rightarrow>
                    if notStr nameNode then add rep (Line nameNode) ''os.name must be string''
                    else if Value nameNode \<notin> validOS then
                      add rep (Line nameNode)
                        (''os has unsupported value '' @ quoted (Value nameNode))
                    else rep)
             }
           | _ \<Rightarrow> Some (add rep (Line osNode) ''os must be string or object''))
   }"

fun containersLoop ::
  "node list \<Rightarrow> reporter \<Rightarrow> string set \<Rightarrow> (reporter \<times> string set) option" where
  "containersLoop [] rep seen = Some (rep, seen)"
| "containersLoop (item # items) rep seen =
     (if Kind item \<noteq> MappingNode then
        containersLoop items (add rep (Line item) ''container must be object'') seen
      else do {
        (rep, seen) \<leftarrow> validateContainer item rep seen;
        containersLoop items rep seen
      })"

definition validatePodSpec_containers :: "node \<Rightarrow> reporter \<Rightarrow> reporter option" where
  "validatePodSpec_containers n rep = do {
     f \<leftarrow> getField n ''containers'';
     case f of
        Absent \<Rightarrow> Some (addRequiredNoLine rep ''spec.containers'')
      | Found containers \<Rightarrow>
          if Kind containers \<noteq> SequenceNode then
            Some (add rep (Line containers) ''containers must be array'')
          else do {
            let rep = (if length (Content containers) = 0 then
                         add rep (Line containers) ''containers value out of range''
                       else rep);
            (rep, seen) \<leftarrow> containersLoop (Content containers) rep {};
            Some rep
          }
   }"

definition validatePodSpec :: "node \<Rightarrow> reporter \<Rightarrow> reporter option" where
  "validatePodSpec n rep = do {
     rep \<leftarrow> validatePodSpec_os n rep;
     validatePodSpec_containers n rep
   }"

subsection \<open>Pod\<close>

definition validatePod_apiVersion :: "node \<Rightarrow> reporter \<Rightarrow> reporter option" where
  "validatePod_apiVersion doc rep = do {
     f \<leftarrow> getField doc ''apiVersion'';
     Some (case f of
        Absent \<Rightarrow> addRequiredNoLine rep ''apiVersion''
      | Found n \<Rightarrow>
          if notStr n then add rep (Line n) ''apiVersion must be string''
          else if Value n \<noteq> ''v1'' then
            add rep (Line n) (''apiVersion has unsupported value '' @ quoted (Value n))
          else rep)
   }"

definition validatePod_kind :: "node \<Rightarrow> reporter \<Rightarrow> reporter option" where
  "validatePod_kind doc rep = do {
     f \<leftarrow> getField doc ''kind'';
     Some (case f of
        Absent \<Rightarrow> addRequiredNoLine rep ''kind''
      | Found n \<Rightarrow>
          if notStr n then add rep (Line n) ''kind must be string''
          else if Value n \<noteq> ''Pod'' then
            add rep (Line n) (''kind has unsupported value '' @ quoted (Value n))
          else rep)
   }"

definition validatePod_metadata :: "node \<Rightarrow> reporter \<Rightarrow> reporter option" where
  "validatePod_metadata doc rep = do {
     f \<leftarrow> getField doc ''metadata'';
     case f of
        Absent \<Rightarrow> Some (addRequiredNoLine rep ''metadata'')
      | Found n \<Rightarrow>
          if Kind n \<noteq> MappingNode then Some (add rep (Line n) ''metadata must be object'')
          else validateObjectMeta n rep
   }"

definition validatePod_spec :: "node \<Rightarrow> reporter \<Rightarrow> reporter option" where
  "validatePod_spec doc rep = do {
     f \<leftarrow> getField doc ''spec'';
     case f of
        Absent \<Rightarrow> Some (addRequiredNoLine rep ''spec'')
      | Found n \<Rightarrow>
          if Kind n \<noteq> MappingNode then Some (add rep (Line n) ''spec must be object'')
          else validatePodSpec n rep
   }"

definition validatePod :: "node \<Rightarrow> reporter \<Rightarrow> reporter option" where
  "validatePod doc rep = do {
     rep \<leftarrow> validatePod_apiVersion doc rep;
     rep \<leftarrow> validatePod_kind doc rep;
     rep \<leftarrow> validatePod_metadata doc rep;
     validatePod_spec doc rep
   }"

text \<open>The loop of \<^verbatim>\<open>main\<close> over the documents of the file.\<close>

fun mainLoop :: "node list \<Rightarrow> reporter \<Rightarrow> reporter option" where
  "mainLoop [] rep = Some rep"
| "mainLoop (doc # docs) rep =
     (if Kind doc \<noteq> MappingNode then mainLoop docs (add rep (Line doc) ''root must be object'')
      else do {
        rep \<leftarrow> validatePod doc rep;
        mainLoop docs rep
      })"


section \<open>The first program, where it differs from the second\<close>

text \<open>
  The first program of \<^verbatim>\<open>main.go\<close> (lines 1 to 461) has one method for a missing field,
  \<^verbatim>\<open>addRequired\<close>, which does what \<^verbatim>\<open>addRequiredNoLine\<close> does in the second. Its
  \<^verbatim>\<open>getField\<close>, \<^verbatim>\<open>asInt\<close>, \<^verbatim>\<open>validateContainerPort\<close> and \<^verbatim>\<open>validateProbe\<close>, and its
  checks of \<^verbatim>\<open>namespace\<close>, \<^verbatim>\<open>os\<close>, \<^verbatim>\<open>image\<close>, \<^verbatim>\<open>ports\<close> and of the two probes are,
  up to the name of that method, the text of the second program, and the definitions above
  stand for both. It differs in three places, modelled here under names that end in
  \<open>_rev1\<close>: \<^verbatim>\<open>validateObjectMeta\<close> reports an empty name as a format error and checks the
  value of a label before its key; \<^verbatim>\<open>validatePodSpec\<close> checks a container in the loop
  itself, with one branch for a name that is empty and for one that is not in snake case;
  \<^verbatim>\<open>validateResKV\<close> writes \<^verbatim>\<open>resources.limits\<close> into the message about a memory format
  whatever its prefix is.
\<close>

definition validateObjectMeta_name_rev1 :: "node \<Rightarrow> reporter \<Rightarrow> reporter option" where
  "validateObjectMeta_name_rev1 n rep = do {
     f \<leftarrow> getField n ''name'';
     Some (case f of
        Absent \<Rightarrow> addRequired rep ''metadata.name''
      | Found name \<Rightarrow>
          if notStr name then add rep (Line name) ''name must be string''
          else if TrimSpace (Value name) = [] then
            add rep (Line name) (''name has invalid format '' @ quoted [])
          else rep)
   }"

definition validatePodSpec_name_rev1 ::
  "node \<Rightarrow> reporter \<Rightarrow> string set \<Rightarrow> (reporter \<times> string set) option" where
  "validatePodSpec_name_rev1 item rep seenNames = do {
     f \<leftarrow> getField item ''name'';
     Some (case f of
        Absent \<Rightarrow> (addRequired rep ''containers.name'', seenNames)
      | Found nameNode \<Rightarrow>
          if notStr nameNode then (add rep (Line nameNode) ''name must be string'', seenNames)
          else if TrimSpace (Value nameNode) = [] \<or> \<not> reSnake (Value nameNode) then
            (add rep (Line nameNode) (''name has invalid format '' @ quoted (Value nameNode)),
             seenNames)
          else
            (let cname = Value nameNode
             in (if cname \<in> seenNames then add rep (Line nameNode) duplicateMsg else rep,
                 insert cname seenNames)))
   }"

fun labelsLoop_rev1 :: "node list \<Rightarrow> reporter \<Rightarrow> reporter option" where
  "labelsLoop_rev1 [] rep = Some rep"
| "labelsLoop_rev1 [k] rep = None"
| "labelsLoop_rev1 (k # v # rest) rep =
     (let rep1 = (if notStr v then add rep (Line v) ''labels value must be string'' else rep);
          rep2 = (if notStr k then add rep1 (Line k) ''labels key must be string'' else rep1)
      in labelsLoop_rev1 rest rep2)"

definition validateObjectMeta_labels_rev1 :: "node \<Rightarrow> reporter \<Rightarrow> reporter option" where
  "validateObjectMeta_labels_rev1 n rep = do {
     f \<leftarrow> getField n ''labels'';
     case f of
        Absent \<Rightarrow> Some rep
      | Found labels \<Rightarrow>
          if Kind labels \<noteq> MappingNode then Some (add rep (Line labels) ''labels must be object'')
          else labelsLoop_rev1 (Content labels) rep
   }"

definition validateObjectMeta_rev1 :: "node \<Rightarrow> reporter \<Rightarrow> reporter option" where
  "validateObjectMeta_rev1 n rep = do {
     rep \<leftarrow> validateObjectMeta_name_rev1 n rep;
     rep \<leftarrow> validateObjectMeta_namespace n rep;
     validateObjectMeta_labels_rev1 n rep
   }"

definition validateResKV_entry_rev1 :: "node \<Rightarrow> node \<Rightarrow> reporter \<Rightarrow> string \<Rightarrow> reporter" where
  "validateResKV_entry_rev1 k v rep pfx =
     (if notStr k then add rep (Line k) (pfx @ '' key must be string'')
      else if Value k = ''cpu'' then
        (case asInt v of
           (Inl err, ln) \<Rightarrow> add rep ln ''cpu must be int''
         | (Inr ival, ln) \<Rightarrow>
             if ival < 0 then add rep ln ''cpu value out of range'' else rep)
      else if Value k = ''memory'' then
        (if notStr v then add rep (Line v) ''memory must be string''
         else if \<not> reMem (Value v) then
           add rep (Line v) (''resources.limits.memory has invalid format '' @ quoted (Value v))
         else rep)
      else rep)"

fun validateResKV_loop_rev1 :: "node list \<Rightarrow> reporter \<Rightarrow> string \<Rightarrow> reporter option" where
  "validateResKV_loop_rev1 [] rep pfx = Some rep"
| "validateResKV_loop_rev1 [k] rep pfx = None"
| "validateResKV_loop_rev1 (k # v # rest) rep pfx =
     validateResKV_loop_rev1 rest (validateResKV_entry_rev1 k v rep pfx) pfx"

definition validateResKV_rev1 :: "node \<Rightarrow> reporter \<Rightarrow> string \<Rightarrow> reporter option" where
  "validateResKV_rev1 n rep pfx =
     (if Kind n \<noteq> MappingNode then Some (add rep (Line n) (pfx @ '' must be object''))
      else validateResKV_loop_rev1 (Content n) rep pfx)"

definition validateResources_rev1 :: "node \<Rightarrow> reporter \<Rightarrow> reporter option" where
  "validateResources_rev1 n rep =
     (if Kind n \<noteq> MappingNode then Some (add rep (Line n) ''resources must be object'')
      else do {
        f \<leftarrow> getField n ''limits'';
        rep \<leftarrow> (case f of
                  Absent \<Rightarrow> Some rep
                | Found lim \<Rightarrow> validateResKV_rev1 lim rep ''resources.limits'');
        g \<leftarrow> getField n ''requests'';
        case g of
           Absent \<Rightarrow> Some rep
         | Found req \<Rightarrow> validateResKV_rev1 req rep ''resources.requests''
      })"

definition validatePodSpec_resources_rev1 :: "node \<Rightarrow> reporter \<Rightarrow> reporter option" where
  "validatePodSpec_resources_rev1 item rep = do {
     f \<leftarrow> getField item ''resources'';
     case f of
        Absent \<Rightarrow> Some (addRequired rep ''containers.resources'')
      | Found res \<Rightarrow> validateResources_rev1 res rep
   }"

text \<open>What the loop of the first \<^verbatim>\<open>validatePodSpec\<close> does on a container after its name.\<close>

definition validatePodSpec_rest_rev1 :: "node \<Rightarrow> reporter \<Rightarrow> reporter option" where
  "validatePodSpec_rest_rev1 item rep = do {
     rep \<leftarrow> validateContainer_image item rep;
     rep \<leftarrow> validateContainer_ports item rep;
     rep \<leftarrow> validateContainer_probe item rep ''readinessProbe'';
     rep \<leftarrow> validateContainer_probe item rep ''livenessProbe'';
     validatePodSpec_resources_rev1 item rep
   }"

text \<open>The body of that loop, for an item that is a mapping.\<close>

definition validatePodSpec_item_rev1 ::
  "node \<Rightarrow> reporter \<Rightarrow> string set \<Rightarrow> (reporter \<times> string set) option" where
  "validatePodSpec_item_rev1 item rep seenNames = do {
     (rep, seenNames) \<leftarrow> validatePodSpec_name_rev1 item rep seenNames;
     rep \<leftarrow> validatePodSpec_rest_rev1 item rep;
     Some (rep, seenNames)
   }"

fun containersLoop_rev1 ::
  "node list \<Rightarrow> reporter \<Rightarrow> string set \<Rightarrow> (reporter \<times> string set) option" where
  "containersLoop_rev1 [] rep seenNames = Some (rep, seenNames)"
| "containersLoop_rev1 (item # items) rep seenNames =
     (if Kind item \<noteq> MappingNode then
        containersLoop_rev1 items (add rep (Line item) ''container must be object'') seenNames
      else do {
        (rep, seenNames) \<leftarrow> validatePodSpec_item_rev1 item rep seenNames;
        containersLoop_rev1 items rep seenNames
      })"

definition validatePodSpec_containers_rev1 :: "node \<Rightarrow> reporter \<Rightarrow> reporter option" where
  "validatePodSpec_containers_rev1 n rep = do {
     f \<leftarrow> getField n ''containers'';
     case f of
        Absent \<Rightarrow> Some (addRequired rep ''spec.containers'')
      | Found containers \<Rightarrow>
          if Kind containers \<noteq> SequenceNode then
            Some (add rep (Line containers) ''containers must be array'')
          else do {
            let rep = (if length (Content containers) = 0 then
                         add rep (Line containers) ''containers value out of range''
                       else rep);
            (rep, seenNames) \<leftarrow> containersLoop_rev1 (Content containers) rep {};
            Some rep
          }
   }"

definition validatePodSpec_rev1 :: "node \<Rightarrow> reporter \<Rightarrow> reporter option" where
  "validatePodSpec_rev1 n rep = do {
     rep \<leftarrow> validatePodSpec_os n rep;
     validatePodSpec_containers_rev1 n rep
   }"

section \<open>Vocabulary of the theorems\<close>

text \<open>
  \<open>diag rep l m\<close> is the diagnostic that \<open>add rep l m\<close> appends. \<open>emitted f rep\<close> is the
  list of diagnostics that the check \<open>f\<close> appends when it runs alone, on a reporter for
  the same file that holds no diagnostic yet. A check is \<open>appendsOnly P\<close> when on every
  reporter it panics exactly when it does alone, and otherwise returns the reporter with
  exactly those diagnostics added at the end, each with a message that satisfies \<open>P\<close>.
  \<open>appendsOnly2\<close> is the same for a check that also returns the set of names.
\<close>

definition diag :: "reporter \<Rightarrow> int \<Rightarrow> string \<Rightarrow> errOut" where
  "diag rep l m = \<lparr>errOut.file = reporter.file rep, line = l, msg = m\<rparr>"

definition fresh :: "reporter \<Rightarrow> reporter" where
  "fresh rep = rep\<lparr>errs := []\<rparr>"

definition emitted :: "(reporter \<Rightarrow> reporter option) \<Rightarrow> reporter \<Rightarrow> errOut list option" where
  "emitted f rep = map_option errs (f (fresh rep))"

definition extend :: "reporter \<Rightarrow> errOut list \<Rightarrow> reporter" where
  "extend rep ds = rep\<lparr>errs := errs rep @ ds\<rparr>"

definition appendsOnly :: "(string \<Rightarrow> bool) \<Rightarrow> (reporter \<Rightarrow> reporter option) \<Rightarrow> bool" where
  "appendsOnly P f =
     (\<forall>rep. f rep = map_option (extend rep) (emitted f rep) \<and>
            (\<forall>ds. emitted f rep = Some ds \<longrightarrow> list_all (\<lambda>e. P (msg e)) ds))"

definition appendsOnly2 ::
  "(string \<Rightarrow> bool) \<Rightarrow> (reporter \<Rightarrow> (reporter \<times> string set) option) \<Rightarrow> bool" where
  "appendsOnly2 P f =
     (\<forall>rep. f rep = map_option (\<lambda>(r, s). (extend rep (errs r), s)) (f (fresh rep)) \<and>
            (\<forall>r s. f (fresh rep) = Some (r, s) \<longrightarrow> list_all (\<lambda>e. P (msg e)) (errs r)))"

text \<open>The diagnostics that a run from \<open>rep\<close> to \<open>rep'\<close> added.\<close>

definition newErrs :: "reporter \<Rightarrow> reporter \<Rightarrow> errOut list" where
  "newErrs rep rep' = drop (length (errs rep)) (errs rep')"

text \<open>
  A message about a name: everything that starts with \<open>name\<close> and a space, and the
  messages for a metadata mapping and for a container that have no name.
\<close>

definition nameMsg :: "string \<Rightarrow> bool" where
  "nameMsg m =
     (HasPrefix m ''name '' \<or> m = ''metadata.name is required'' \<or>
      m = ''containers.name is required'')"

text \<open>
  \<open>validName item\<close> is the name node of a container whose name passes every check but the
  one of uniqueness; \<open>nameValues items\<close> are the values of these names in a list of
  containers.
\<close>

definition validName :: "node \<Rightarrow> node option" where
  "validName item =
     (if Kind item \<noteq> MappingNode then None
      else case getField item ''name'' of
             Some (Found nm) \<Rightarrow>
               if \<not> notStr nm \<and> TrimSpace (Value nm) \<noteq> [] \<and> reSnake (Value nm) then Some nm
               else None
           | _ \<Rightarrow> None)"

definition nameValues :: "node list \<Rightarrow> string set" where
  "nameValues items = Value ` set (List.map_filter validName items)"


text \<open>
  Integer literals in words: \<open>onlyDigits\<close> is a non-empty text of decimal digits;
  \<open>intLiteral\<close> is such a text after an optional sign, with a value in the range of a 64-bit
  \<^verbatim>\<open>int\<close>; \<open>literalValue\<close> is that value.
\<close>

definition onlyDigits :: "string \<Rightarrow> bool" where
  "onlyDigits s = (s \<noteq> [] \<and> list_all isDigit s)"

definition unsignedPart :: "string \<Rightarrow> string" where
  "unsignedPart s = (case s of [] \<Rightarrow> [] | c # cs \<Rightarrow> if c = CHR ''-'' \<or> c = CHR ''+'' then cs else s)"

definition decimal :: "string \<Rightarrow> int" where
  "decimal ds = foldl (\<lambda>a c. a * 10 + digitVal c) 0 ds"

definition literalValue :: "string \<Rightarrow> int" where
  "literalValue s =
     (if take 1 s = ''-'' then - decimal (unsignedPart s) else decimal (unsignedPart s))"

definition intLiteral :: "string \<Rightarrow> bool" where
  "intLiteral s =
     (onlyDigits (unsignedPart s) \<and> - (2 ^ 63) \<le> literalValue s \<and> literalValue s \<le> 2 ^ 63 - 1)"


text \<open>
  The prefixes that \<^verbatim>\<open>validateContainer\<close> gives to \<^verbatim>\<open>validateProbe\<close> and that
  \<^verbatim>\<open>validateResources\<close> gives to \<^verbatim>\<open>validateResKV\<close>.
\<close>

definition probePrefix :: "string \<Rightarrow> bool" where
  "probePrefix pfx = (pfx = ''readinessProbe'' \<or> pfx = ''livenessProbe'')"

definition resPrefix :: "string \<Rightarrow> bool" where
  "resPrefix pfx = (pfx = ''resources.limits'' \<or> pfx = ''resources.requests'')"

abbreviation (input) other :: "string \<Rightarrow> bool" where
  "other m \<equiv> \<not> nameMsg m"

section \<open>Validators only append diagnostics\<close>

lemmas rep_ops = add_def addRequiredNoLine_def addRequiredAt_def addRequired_def extend_def fresh_def

lemma appendsOnly_Some: "appendsOnly P Some"
  by (simp add: appendsOnly_def emitted_def rep_ops)

lemma appendsOnly_None: "appendsOnly P (\<lambda>rep. None)"
  by (simp add: appendsOnly_def emitted_def)

lemma appendsOnly_add: "P m \<Longrightarrow> appendsOnly P (\<lambda>rep. Some (add rep l m))"
  by (simp add: appendsOnly_def emitted_def rep_ops)

lemma appendsOnly_addRequiredNoLine:
  "P (f @ '' is required'') \<Longrightarrow> appendsOnly P (\<lambda>rep. Some (addRequiredNoLine rep f))"
  by (simp add: appendsOnly_def emitted_def rep_ops)

lemma appendsOnly_addRequiredAt:
  "P (f @ '' is required'') \<Longrightarrow> appendsOnly P (\<lambda>rep. Some (addRequiredAt rep l f))"
  by (simp add: appendsOnly_def emitted_def rep_ops)

lemma appendsOnly_if:
  "(c \<Longrightarrow> appendsOnly P f) \<Longrightarrow> (\<not> c \<Longrightarrow> appendsOnly P g) \<Longrightarrow>
   appendsOnly P (\<lambda>rep. if c then f rep else g rep)"
  by (cases c) simp_all

lemma appendsOnly_field:
  "(x = Absent \<Longrightarrow> appendsOnly P a) \<Longrightarrow> (\<And>n. x = Found n \<Longrightarrow> appendsOnly P (b n)) \<Longrightarrow>
   appendsOnly P (\<lambda>rep. case x of Absent \<Rightarrow> a rep | Found n \<Rightarrow> b n rep)"
  by (cases x) simp_all

lemma appendsOnly_const_bind:
  "(\<And>x. m = Some x \<Longrightarrow> appendsOnly P (g x)) \<Longrightarrow> appendsOnly P (\<lambda>rep. m \<bind> (\<lambda>x. g x rep))"
  by (cases m) (simp_all add: appendsOnly_None)

lemma fresh_extend [simp]: "fresh (extend rep ds) = fresh rep"
  by (simp add: rep_ops)

lemma fresh_fresh [simp]: "fresh (fresh rep) = fresh rep"
  by (simp add: rep_ops)

lemma errs_fresh [simp]: "errs (fresh rep) = []"
  by (simp add: rep_ops)

lemma errs_extend [simp]: "errs (extend rep ds) = errs rep @ ds"
  by (simp add: rep_ops)

lemma extend_extend [simp]: "extend (extend rep ds) es = extend rep (ds @ es)"
  by (simp add: rep_ops)

lemma extend_fresh_errs [simp]: "extend (fresh rep) (errs rep) = rep"
  by (simp add: rep_ops)

lemma appendsOnlyD:
  assumes "appendsOnly P f"
  shows "f rep = map_option (extend rep) (emitted f rep)"
    and "emitted f rep = Some ds \<Longrightarrow> list_all (\<lambda>e. P (msg e)) ds"
  using assms by (auto simp: appendsOnly_def)

lemma appendsOnly_result:
  assumes "appendsOnly P f" and "f rep = Some rep'"
  shows "\<exists>ds. emitted f rep = Some ds \<and> rep' = extend rep ds \<and> list_all (\<lambda>e. P (msg e)) ds"
proof -
  from appendsOnlyD(1) [OF assms(1), of rep] assms(2)
  obtain ds where "emitted f rep = Some ds" and "rep' = extend rep ds"
    by (cases "emitted f rep") auto
  with appendsOnlyD(2) [OF assms(1)] show ?thesis by blast
qed

lemma emitted_bind:
  assumes f: "appendsOnly P f" and g: "appendsOnly Q g"
  shows "emitted (\<lambda>rep. f rep \<bind> g) rep =
         emitted f rep \<bind> (\<lambda>ds. emitted g rep \<bind> (\<lambda>es. Some (ds @ es)))"
proof (cases "emitted f rep")
  case None
  then show ?thesis by (simp add: emitted_def)
next
  case (Some ds)
  have "emitted f (fresh rep) = emitted f rep"
    by (simp add: emitted_def)
  with Some have ff: "f (fresh rep) = Some (extend (fresh rep) ds)"
    by (simp add: appendsOnlyD(1) [OF f, of "fresh rep"])
  have "emitted g (extend (fresh rep) ds) = emitted g rep"
    by (simp add: emitted_def)
  then have gg: "g (extend (fresh rep) ds) = map_option (extend (extend (fresh rep) ds)) (emitted g rep)"
    using appendsOnlyD(1) [OF g, of "extend (fresh rep) ds"] by simp
  have "emitted (\<lambda>rep. f rep \<bind> g) rep = map_option errs (g (extend (fresh rep) ds))"
    by (simp add: emitted_def ff)
  also have "\<dots> = map_option errs (map_option (extend (extend (fresh rep) ds)) (emitted g rep))"
    by (simp only: gg)
  also have "\<dots> = emitted g rep \<bind> (\<lambda>es. Some (ds @ es))"
    by (cases "emitted g rep") simp_all
  finally show ?thesis
    by (simp add: Some)
qed

lemma appendsOnly_bind:
  assumes f: "appendsOnly P f" and g: "appendsOnly P g"
  shows "appendsOnly P (\<lambda>rep. f rep \<bind> g)"
  unfolding appendsOnly_def
proof (intro allI conjI impI)
  fix rep
  show "f rep \<bind> g = map_option (extend rep) (emitted (\<lambda>rep. f rep \<bind> g) rep)"
  proof (cases "emitted f rep")
    case None
    then have "f rep = None"
      using appendsOnlyD(1) [OF f, of rep] by simp
    then show ?thesis
      by (simp add: emitted_bind [OF f g] None)
  next
    case (Some ds)
    then have ff: "f rep = Some (extend rep ds)"
      using appendsOnlyD(1) [OF f, of rep] by simp
    have "emitted g (extend rep ds) = emitted g rep"
      by (simp add: emitted_def)
    then have gg: "g (extend rep ds) = map_option (extend (extend rep ds)) (emitted g rep)"
      using appendsOnlyD(1) [OF g, of "extend rep ds"] by simp
    have "f rep \<bind> g = g (extend rep ds)"
      by (simp add: ff)
    also have "\<dots> = map_option (extend (extend rep ds)) (emitted g rep)"
      by (simp only: gg)
    also have "\<dots> = map_option (extend rep) (emitted (\<lambda>rep. f rep \<bind> g) rep)"
      by (cases "emitted g rep") (simp_all add: emitted_bind [OF f g] Some)
    finally show ?thesis .
  qed
next
  fix rep ds
  assume "emitted (\<lambda>rep. f rep \<bind> g) rep = Some ds"
  then obtain a b where "emitted f rep = Some a" "emitted g rep = Some b" "ds = a @ b"
    by (auto simp: emitted_bind [OF f g] split: bind_splits)
  then show "list_all (\<lambda>e. P (msg e)) ds"
    using appendsOnlyD(2) [OF f] appendsOnlyD(2) [OF g] by simp
qed

lemma appendsOnly_mono:
  "appendsOnly P f \<Longrightarrow> (\<And>m. P m \<Longrightarrow> Q m) \<Longrightarrow> appendsOnly Q f"
  unfolding appendsOnly_def list_all_iff by blast

subsection \<open>Every validator only appends\<close>

lemmas msg_simps = nameMsg_def HasPrefix_def quoted_def

lemma namespace_appends: "appendsOnly other (validateObjectMeta_namespace n)"
  unfolding validateObjectMeta_namespace_def
  by (auto simp: appendsOnly_def emitted_def rep_ops msg_simps split: bind_splits field.splits)

lemma labelsLoop_appends: "appendsOnly other (labelsLoop cs)"
proof (induction cs rule: induct_list012)
  case 1
  show ?case by (simp add: appendsOnly_def emitted_def rep_ops)
next
  case (2 k)
  show ?case by (simp add: appendsOnly_def emitted_def)
next
  case (3 k v rest)
  let ?step = "\<lambda>rep. Some
     (let rep1 = (if notStr k then add rep (Line k) ''labels key must be string'' else rep)
      in if notStr v then add rep1 (Line v) ''labels value must be string'' else rep1)"
  have "appendsOnly other ?step"
    by (auto simp: appendsOnly_def emitted_def rep_ops msg_simps Let_def)
  then have "appendsOnly other (\<lambda>rep. ?step rep \<bind> labelsLoop rest)"
    using "3.IH"(1) by (rule appendsOnly_bind)
  moreover have "labelsLoop (k # v # rest) = (\<lambda>rep. ?step rep \<bind> labelsLoop rest)"
    by (simp add: fun_eq_iff Let_def)
  ultimately show ?case by simp
qed

lemma labels_appends: "appendsOnly other (validateObjectMeta_labels n)"
  unfolding validateObjectMeta_labels_def
  by (intro appendsOnly_const_bind appendsOnly_field appendsOnly_if appendsOnly_Some
      appendsOnly_add labelsLoop_appends) (simp_all add: msg_simps)

lemma objectMeta_name_appends: "appendsOnly (\<lambda>_. True) (validateObjectMeta_name n)"
  unfolding validateObjectMeta_name_def
  by (auto simp: appendsOnly_def emitted_def rep_ops split: bind_splits field.splits)

lemma validateObjectMeta_appends: "appendsOnly (\<lambda>_. True) (validateObjectMeta n)"
  unfolding validateObjectMeta_def
  by (intro appendsOnly_bind objectMeta_name_appends
      appendsOnly_mono [OF namespace_appends] appendsOnly_mono [OF labels_appends]) simp_all

lemma containerPort_field_appends: "appendsOnly other (validateContainerPort_containerPort n)"
  unfolding validateContainerPort_containerPort_def
  by (auto simp: appendsOnly_def emitted_def rep_ops msg_simps
      split: bind_splits field.splits prod.splits sum.splits)

lemma protocol_appends: "appendsOnly other (validateContainerPort_protocol n)"
  unfolding validateContainerPort_protocol_def
  by (auto simp: appendsOnly_def emitted_def rep_ops msg_simps split: bind_splits field.splits)

lemma validateContainerPort_appends: "appendsOnly other (validateContainerPort n)"
  unfolding validateContainerPort_def
  by (intro appendsOnly_bind containerPort_field_appends protocol_appends)

lemma probe_path_appends:
  "probePrefix pfx \<Longrightarrow> appendsOnly other (\<lambda>rep. validateProbe_path hg rep pfx)"
  unfolding validateProbe_path_def probePrefix_def
  by (auto simp: appendsOnly_def emitted_def rep_ops msg_simps split: bind_splits field.splits)

lemma probe_port_appends:
  "probePrefix pfx \<Longrightarrow> appendsOnly other (\<lambda>rep. validateProbe_port hg rep pfx)"
  unfolding validateProbe_port_def probePrefix_def
  by (auto simp: appendsOnly_def emitted_def rep_ops msg_simps
      split: bind_splits field.splits prod.splits sum.splits)

lemma validateProbe_appends:
  assumes "probePrefix pfx"
  shows "appendsOnly other (\<lambda>rep. validateProbe n rep pfx)"
proof -
  have m: "other (pfx @ '' must be object'')" "other (pfx @ ''.httpGet'' @ '' is required'')"
    using assms by (auto simp: probePrefix_def msg_simps)
  show ?thesis
    unfolding validateProbe_def
    by (intro appendsOnly_if appendsOnly_const_bind appendsOnly_field appendsOnly_bind
        appendsOnly_add appendsOnly_addRequiredNoLine probe_path_appends probe_port_appends
        assms) (use m in \<open>simp_all add: msg_simps\<close>)
qed

lemma resKV_entry_appends:
  "resPrefix pfx \<Longrightarrow> appendsOnly other (\<lambda>rep. Some (validateResKV_entry k v rep pfx))"
  unfolding validateResKV_entry_def resPrefix_def
  by (auto simp: appendsOnly_def emitted_def rep_ops msg_simps split: prod.splits sum.splits)

lemma resKV_loop_appends:
  assumes "resPrefix pfx"
  shows "appendsOnly other (\<lambda>rep. validateResKV_loop cs rep pfx)"
proof (induction cs rule: induct_list012)
  case 1
  show ?case by (simp add: appendsOnly_def emitted_def rep_ops)
next
  case (2 k)
  show ?case by (simp add: appendsOnly_def emitted_def)
next
  case (3 k v rest)
  have "appendsOnly other
          (\<lambda>rep. Some (validateResKV_entry k v rep pfx) \<bind> (\<lambda>rep. validateResKV_loop rest rep pfx))"
    using resKV_entry_appends [OF assms] "3.IH"(1) by (rule appendsOnly_bind)
  then show ?case by simp
qed

lemma validateResKV_appends:
  assumes "resPrefix pfx"
  shows "appendsOnly other (\<lambda>rep. validateResKV n rep pfx)"
proof -
  have m: "other (pfx @ '' must be object'')"
    using assms by (auto simp: resPrefix_def msg_simps)
  show ?thesis
    unfolding validateResKV_def
    by (intro appendsOnly_if appendsOnly_add resKV_loop_appends assms m)
qed

lemma validateResources_appends: "appendsOnly other (validateResources n)"
proof -
  have lim: "appendsOnly other
     (\<lambda>rep. case f of Absent \<Rightarrow> Some rep | Found lim \<Rightarrow> validateResKV lim rep ''resources.limits'')"
    for f
    by (intro appendsOnly_field appendsOnly_Some validateResKV_appends) (simp add: resPrefix_def)
  have req: "appendsOnly other
     (\<lambda>rep. case g of Absent \<Rightarrow> Some rep | Found req \<Rightarrow> validateResKV req rep ''resources.requests'')"
    for g
    by (intro appendsOnly_field appendsOnly_Some validateResKV_appends) (simp add: resPrefix_def)
  have "appendsOnly other (\<lambda>rep. getField n ''limits'' \<bind> (\<lambda>f.
          (case f of Absent \<Rightarrow> Some rep | Found lim \<Rightarrow> validateResKV lim rep ''resources.limits'')
          \<bind> (\<lambda>rep. getField n ''requests'' \<bind> (\<lambda>g.
            case g of Absent \<Rightarrow> Some rep | Found req \<Rightarrow> validateResKV req rep ''resources.requests''))))"
    by (intro appendsOnly_const_bind appendsOnly_bind lim req)
  then show ?thesis
    unfolding validateResources_def
    by (intro appendsOnly_if appendsOnly_add) (simp_all add: msg_simps)
qed

lemma image_appends: "appendsOnly other (validateContainer_image item)"
  unfolding validateContainer_image_def
  by (auto simp: appendsOnly_def emitted_def rep_ops msg_simps split: bind_splits field.splits)

lemma portsLoop_appends: "appendsOnly other (portsLoop pns)"
proof (induction pns)
  case Nil
  show ?case by (simp add: appendsOnly_def emitted_def rep_ops)
next
  case (Cons pn pns)
  show ?case
  proof (cases "Kind pn \<noteq> MappingNode")
    case True
    have "appendsOnly other
            (\<lambda>rep. Some (add rep (Line pn) ''ports item must be object'') \<bind> portsLoop pns)"
      by (intro appendsOnly_bind appendsOnly_add Cons.IH) (simp add: msg_simps)
    with True show ?thesis by simp
  next
    case False
    have "appendsOnly other (\<lambda>rep. validateContainerPort pn rep \<bind> portsLoop pns)"
      by (intro appendsOnly_bind validateContainerPort_appends Cons.IH)
    with False show ?thesis by simp
  qed
qed

lemma ports_appends: "appendsOnly other (validateContainer_ports item)"
  unfolding validateContainer_ports_def
  by (intro appendsOnly_const_bind appendsOnly_field appendsOnly_if appendsOnly_Some
      appendsOnly_add portsLoop_appends) (simp_all add: msg_simps)

lemma probe_appends:
  "probePrefix pfx \<Longrightarrow> appendsOnly other (\<lambda>rep. validateContainer_probe item rep pfx)"
  unfolding validateContainer_probe_def
  by (intro appendsOnly_const_bind appendsOnly_field appendsOnly_Some validateProbe_appends)

lemma resources_appends: "appendsOnly other (validateContainer_resources item)"
  unfolding validateContainer_resources_def
  by (intro appendsOnly_const_bind appendsOnly_field appendsOnly_addRequiredNoLine
      validateResources_appends) (simp_all add: msg_simps)

lemma rest_appends: "appendsOnly other (validateContainer_rest item)"
  unfolding validateContainer_rest_def
  by (intro appendsOnly_bind image_appends ports_appends probe_appends resources_appends)
     (simp_all add: probePrefix_def)

subsection \<open>Checks that also return the set of names\<close>

lemma appendsOnly2D:
  assumes "appendsOnly2 P f"
  shows "f rep = map_option (\<lambda>(r, s). (extend rep (errs r), s)) (f (fresh rep))"
    and "f (fresh rep) = Some (r, s) \<Longrightarrow> list_all (\<lambda>e. P (msg e)) (errs r)"
  using assms unfolding appendsOnly2_def by blast+

lemma appendsOnly2_fresh:
  assumes "appendsOnly2 P f" and "f (fresh rep) = Some (r0, s0)"
  shows "r0 = extend (fresh rep) (errs r0)"
proof -
  have "f (fresh rep) = map_option (\<lambda>(r, s). (extend (fresh rep) (errs r), s)) (f (fresh rep))"
    by (rule appendsOnly2D(1) [OF assms(1), of "fresh rep", unfolded fresh_fresh])
  then have "Some (r0, s0) =
             map_option (\<lambda>(r, s). (extend (fresh rep) (errs r), s)) (Some (r0, s0))"
    unfolding assms(2) .
  then show ?thesis by simp
qed

lemma appendsOnly2_result:
  assumes "appendsOnly2 P f" and "f rep = Some (rep', s)"
  shows "\<exists>ds. f (fresh rep) = Some (extend (fresh rep) ds, s) \<and> rep' = extend rep ds \<and>
              list_all (\<lambda>e. P (msg e)) ds"
proof -
  have "Some (rep', s) = map_option (\<lambda>(r, s). (extend rep (errs r), s)) (f (fresh rep))"
    using appendsOnly2D(1) [OF assms(1), of rep] by (simp add: assms(2))
  then obtain r0 where r0: "f (fresh rep) = Some (r0, s)" and rep': "rep' = extend rep (errs r0)"
    by (cases "f (fresh rep)") auto
  have "r0 = extend (fresh rep) (errs r0)"
    by (rule appendsOnly2_fresh [OF assms(1) r0])
  then have "f (fresh rep) = Some (extend (fresh rep) (errs r0), s)"
    using r0 by simp
  moreover have "list_all (\<lambda>e. P (msg e)) (errs r0)"
    by (rule appendsOnly2D(2) [OF assms(1) r0])
  ultimately show ?thesis
    using rep' by blast
qed

lemma appendsOnly2_bind:
  assumes f: "appendsOnly2 P f" and g: "\<And>s. appendsOnly2 P (g s)"
  shows "appendsOnly2 P (\<lambda>rep. f rep \<bind> (\<lambda>(r, s). g s r))"
  unfolding appendsOnly2_def
proof (intro allI conjI impI)
  fix rep
  show "f rep \<bind> (\<lambda>(r, s). g s r) =
        map_option (\<lambda>(r, s). (extend rep (errs r), s)) (f (fresh rep) \<bind> (\<lambda>(r, s). g s r))"
  proof (cases "f (fresh rep)")
    case None
    have "f rep = None"
      using appendsOnly2D(1) [OF f, of rep] by (simp add: None)
    with None show ?thesis by simp
  next
    case (Some p)
    obtain r0 s0 where p: "p = (r0, s0)" by (cases p)
    have f0: "f (fresh rep) = Some (r0, s0)"
      using Some p by simp
    have r0: "r0 = extend (fresh rep) (errs r0)"
      by (rule appendsOnly2_fresh [OF f f0])
    have ff: "f rep = Some (extend rep (errs r0), s0)"
      using appendsOnly2D(1) [OF f, of rep] by (simp add: f0)
    have g1: "g s0 (extend rep (errs r0)) =
              map_option (\<lambda>(r, s). (extend (extend rep (errs r0)) (errs r), s)) (g s0 (fresh rep))"
      by (rule appendsOnly2D(1) [OF g, of s0 "extend rep (errs r0)", unfolded fresh_extend])
    have "g s0 (extend (fresh rep) (errs r0)) =
              map_option (\<lambda>(r, s). (extend (extend (fresh rep) (errs r0)) (errs r), s))
                (g s0 (fresh rep))"
      by (rule appendsOnly2D(1) [OF g, of s0 "extend (fresh rep) (errs r0)",
            unfolded fresh_extend fresh_fresh])
    then have g0: "g s0 r0 =
              map_option (\<lambda>(r, s). (extend (extend (fresh rep) (errs r0)) (errs r), s))
                (g s0 (fresh rep))"
      using r0 by metis
    have "f rep \<bind> (\<lambda>(r, s). g s r) = g s0 (extend rep (errs r0))"
      by (simp add: ff)
    also have "\<dots> = map_option (\<lambda>(r, s). (extend (extend rep (errs r0)) (errs r), s))
                       (g s0 (fresh rep))"
      by (rule g1)
    also have "\<dots> = map_option (\<lambda>(r, s). (extend rep (errs r), s)) (g s0 r0)"
      unfolding g0 by (cases "g s0 (fresh rep)") auto
    finally show ?thesis
      by (simp add: f0)
  qed
next
  fix rep r s
  assume a: "f (fresh rep) \<bind> (\<lambda>(r, s). g s r) = Some (r, s)"
  then obtain r0 s0 where f0: "f (fresh rep) = Some (r0, s0)" and g0: "g s0 r0 = Some (r, s)"
    by (auto split: bind_splits)
  have r0: "r0 = extend (fresh rep) (errs r0)"
    by (rule appendsOnly2_fresh [OF f f0])
  have p0: "list_all (\<lambda>e. P (msg e)) (errs r0)"
    by (rule appendsOnly2D(2) [OF f f0])
  from appendsOnly2_result [OF g g0]
  obtain es where es: "r = extend r0 es" "list_all (\<lambda>e. P (msg e)) es"
    by auto
  from p0 es show "list_all (\<lambda>e. P (msg e)) (errs r)"
    by simp
qed

lemma appendsOnly2_lift:
  assumes "appendsOnly P f"
  shows "appendsOnly2 P (\<lambda>rep. f rep \<bind> (\<lambda>r. Some (r, s)))"
  unfolding appendsOnly2_def
proof (intro allI conjI impI)
  fix rep
  show "f rep \<bind> (\<lambda>r. Some (r, s)) =
        map_option (\<lambda>(r, s). (extend rep (errs r), s)) (f (fresh rep) \<bind> (\<lambda>r. Some (r, s)))"
  proof (cases "emitted f rep")
    case None
    then have "f rep = None" "f (fresh rep) = None"
      using appendsOnlyD(1) [OF assms, of rep] by (simp_all add: emitted_def)
    then show ?thesis by simp
  next
    case (Some ds)
    then have "f rep = Some (extend rep ds)"
      using appendsOnlyD(1) [OF assms, of rep] by simp
    moreover from Some obtain r0 where "f (fresh rep) = Some r0" "errs r0 = ds"
      by (auto simp: emitted_def)
    ultimately show ?thesis by simp
  qed
next
  fix rep r s'
  assume "f (fresh rep) \<bind> (\<lambda>r. Some (r, s)) = Some (r, s')"
  then have "emitted f rep = Some (errs r)"
    by (auto simp: emitted_def split: bind_splits)
  then show "list_all (\<lambda>e. P (msg e)) (errs r)"
    by (rule appendsOnlyD(2) [OF assms])
qed

lemma container_name_appends:
  "appendsOnly2 (\<lambda>_. True) (\<lambda>rep. validateContainer_name item rep seen)"
  unfolding validateContainer_name_def
  by (auto simp: appendsOnly2_def rep_ops Let_def list_all_iff split: bind_splits field.splits)

lemma validateContainer_appends:
  "appendsOnly2 (\<lambda>_. True) (\<lambda>rep. validateContainer item rep seen)"
proof -
  have rest: "appendsOnly (\<lambda>_. True) (validateContainer_rest item)"
    by (rule appendsOnly_mono [OF rest_appends]) simp
  have "appendsOnly2 (\<lambda>_. True) (\<lambda>rep. validateContainer_name item rep seen \<bind>
          (\<lambda>(r, s). validateContainer_rest item r \<bind> (\<lambda>r. Some (r, s))))"
    by (intro appendsOnly2_bind container_name_appends appendsOnly2_lift rest)
  then show ?thesis
    by (simp add: validateContainer_def)
qed


lemma containersLoop_appends:
  "appendsOnly2 (\<lambda>_. True) (\<lambda>rep. containersLoop items rep seen)"
proof (induction items arbitrary: seen)
  case Nil
  show ?case by (simp add: appendsOnly2_def rep_ops)
next
  case (Cons item items)
  show ?case
  proof (cases "Kind item \<noteq> MappingNode")
    case True
    have "appendsOnly (\<lambda>_. True) (\<lambda>rep. Some (add rep (Line item) ''container must be object''))"
      by (rule appendsOnly_add) simp
    then have "appendsOnly2 (\<lambda>_. True)
        (\<lambda>rep. (Some (add rep (Line item) ''container must be object'') \<bind> (\<lambda>r. Some (r, seen)))
           \<bind> (\<lambda>(r, s). containersLoop items r s))"
      by (intro appendsOnly2_bind appendsOnly2_lift Cons.IH)
    with True show ?thesis by simp
  next
    case False
    have "appendsOnly2 (\<lambda>_. True)
        (\<lambda>rep. validateContainer item rep seen \<bind> (\<lambda>(r, s). containersLoop items r s))"
      by (intro appendsOnly2_bind validateContainer_appends Cons.IH)
    with False show ?thesis by simp
  qed
qed

lemma appendsOnly_fst:
  assumes "appendsOnly2 P f"
  shows "appendsOnly P (\<lambda>rep. f rep \<bind> (\<lambda>(r, s). Some r))"
  unfolding appendsOnly_def
proof (intro allI conjI impI)
  fix rep
  show "f rep \<bind> (\<lambda>(r, s). Some r) =
        map_option (extend rep) (emitted (\<lambda>rep. f rep \<bind> (\<lambda>(r, s). Some r)) rep)"
  proof (cases "f (fresh rep)")
    case None
    have "f rep = None"
      using appendsOnly2D(1) [OF assms, of rep] by (simp add: None)
    with None show ?thesis by (simp add: emitted_def)
  next
    case (Some p)
    obtain r0 s0 where f0: "f (fresh rep) = Some (r0, s0)"
      using Some by (cases p) simp
    have "f rep = Some (extend rep (errs r0), s0)"
      using appendsOnly2D(1) [OF assms, of rep] by (simp add: f0)
    then show ?thesis by (simp add: emitted_def f0)
  qed
next
  fix rep ds
  assume "emitted (\<lambda>rep. f rep \<bind> (\<lambda>(r, s). Some r)) rep = Some ds"
  then obtain r0 s0 where f0: "f (fresh rep) = Some (r0, s0)" and "ds = errs r0"
    by (auto simp: emitted_def split: bind_splits)
  then show "list_all (\<lambda>e. P (msg e)) ds"
    using appendsOnly2D(2) [OF assms f0] by simp
qed

lemma os_appends: "appendsOnly (\<lambda>_. True) (validatePodSpec_os n)"
  unfolding validatePodSpec_os_def
  by (auto simp: appendsOnly_def emitted_def rep_ops
      split: bind_splits field.splits kind.splits)

lemma containers_appends: "appendsOnly (\<lambda>_. True) (validatePodSpec_containers n)"
proof -
  have loop: "appendsOnly (\<lambda>_. True)
      (\<lambda>rep. containersLoop items rep {} \<bind> (\<lambda>(r, s). Some r))" for items
    by (rule appendsOnly_fst [OF containersLoop_appends])
  have step: "appendsOnly (\<lambda>_. True) (\<lambda>rep. Some (if c then add rep l m else rep))" for c l m
    by (cases c) (simp_all add: appendsOnly_add appendsOnly_Some)
  have "appendsOnly (\<lambda>_. True)
      (\<lambda>rep. Some (if length (Content cs) = 0
                    then add rep (Line cs) ''containers value out of range'' else rep)
         \<bind> (\<lambda>rep. containersLoop (Content cs) rep {} \<bind> (\<lambda>(r, s). Some r)))" for cs
    by (intro appendsOnly_bind step loop)
  then have seq: "appendsOnly (\<lambda>_. True)
      (\<lambda>rep. let rep = (if length (Content cs) = 0
                    then add rep (Line cs) ''containers value out of range'' else rep)
         in containersLoop (Content cs) rep {} \<bind> (\<lambda>(r, s). Some r))" for cs
    by (simp add: Let_def)
  show ?thesis
    unfolding validatePodSpec_containers_def
    by (intro appendsOnly_const_bind appendsOnly_field appendsOnly_if appendsOnly_add
        appendsOnly_addRequiredNoLine seq) simp_all
qed

lemma validatePodSpec_appends: "appendsOnly (\<lambda>_. True) (validatePodSpec n)"
  unfolding validatePodSpec_def
  by (intro appendsOnly_bind os_appends containers_appends)

lemma apiVersion_appends: "appendsOnly (\<lambda>_. True) (validatePod_apiVersion doc)"
  unfolding validatePod_apiVersion_def
  by (auto simp: appendsOnly_def emitted_def rep_ops split: bind_splits field.splits)

lemma kind_appends: "appendsOnly (\<lambda>_. True) (validatePod_kind doc)"
  unfolding validatePod_kind_def
  by (auto simp: appendsOnly_def emitted_def rep_ops split: bind_splits field.splits)

lemma metadata_appends: "appendsOnly (\<lambda>_. True) (validatePod_metadata doc)"
  unfolding validatePod_metadata_def
  by (intro appendsOnly_const_bind appendsOnly_field appendsOnly_if appendsOnly_add
      appendsOnly_addRequiredNoLine validateObjectMeta_appends) simp_all

lemma spec_appends: "appendsOnly (\<lambda>_. True) (validatePod_spec doc)"
  unfolding validatePod_spec_def
  by (intro appendsOnly_const_bind appendsOnly_field appendsOnly_if appendsOnly_add
      appendsOnly_addRequiredNoLine validatePodSpec_appends) simp_all

lemma validatePod_appends: "appendsOnly (\<lambda>_. True) (validatePod doc)"
  unfolding validatePod_def
  by (intro appendsOnly_bind apiVersion_appends kind_appends metadata_appends spec_appends)

lemma mainLoop_appends: "appendsOnly (\<lambda>_. True) (mainLoop docs)"
proof (induction docs)
  case Nil
  show ?case by (simp add: appendsOnly_def emitted_def rep_ops)
next
  case (Cons doc docs)
  show ?case
  proof (cases "Kind doc \<noteq> MappingNode")
    case True
    have "appendsOnly (\<lambda>_. True)
            (\<lambda>rep. Some (add rep (Line doc) ''root must be object'') \<bind> mainLoop docs)"
      by (intro appendsOnly_bind appendsOnly_add Cons.IH) simp
    with True show ?thesis by simp
  next
    case False
    have "appendsOnly (\<lambda>_. True) (\<lambda>rep. validatePod doc rep \<bind> mainLoop docs)"
      by (intro appendsOnly_bind validatePod_appends Cons.IH)
    with False show ?thesis by simp
  qed
qed

lemma appendsOnly_prefix:
  assumes "appendsOnly P f" and "f rep = Some rep'"
  shows "prefix (errs rep) (errs rep')" and "hasErrors rep \<Longrightarrow> hasErrors rep'"
proof -
  from appendsOnly_result [OF assms] obtain ds where "rep' = extend rep ds"
    by blast
  then show "prefix (errs rep) (errs rep')" and "hasErrors rep \<Longrightarrow> hasErrors rep'"
    by (simp_all add: hasErrors_def)
qed


section \<open>The reporter grows by appending\<close>

text \<open>
  Claim C10. The list of diagnostics of the reporter is append-only: \<^verbatim>\<open>add\<close> and
  \<^verbatim>\<open>addRequired\<close> (in the second revision \<^verbatim>\<open>addRequiredNoLine\<close> and
  \<^verbatim>\<open>addRequiredAt\<close>) each put exactly one diagnostic at the end and leave the earlier ones
  and their order as they were. So \<^verbatim>\<open>hasErrors\<close> is monotone: a run of \<^verbatim>\<open>validatePod\<close>
  on one document, or of the loop of \<^verbatim>\<open>main\<close> on all of them, keeps the diagnostics it
  started with as a prefix of the ones it ends with, and if \<^verbatim>\<open>hasErrors\<close> held before it
  holds after.
\<close>

theorem reporter_append_only:
  "errs (add r l m) = errs r @ [diag r l m] \<and>
   errs (addRequired r f) = errs r @ [diag r 0 (f @ '' is required'')] \<and>
   errs (addRequiredNoLine r f) = errs r @ [diag r 0 (f @ '' is required'')] \<and>
   errs (addRequiredAt r l f) = errs r @ [diag r l (f @ '' is required'')] \<and>
   hasErrors (add r l m) \<and> hasErrors (addRequired r f) \<and>
   hasErrors (addRequiredNoLine r f) \<and> hasErrors (addRequiredAt r l f) \<and>
   (validatePod doc r = Some r' \<longrightarrow> prefix (errs r) (errs r') \<and> (hasErrors r \<longrightarrow> hasErrors r')) \<and>
   (mainLoop docs r = Some r'' \<longrightarrow>
      prefix (errs r) (errs r'') \<and> (hasErrors r \<longrightarrow> hasErrors r''))"
proof -
  have ops: "errs (add r l m) = errs r @ [diag r l m]"
    "errs (addRequired r f) = errs r @ [diag r 0 (f @ '' is required'')]"
    "errs (addRequiredNoLine r f) = errs r @ [diag r 0 (f @ '' is required'')]"
    "errs (addRequiredAt r l f) = errs r @ [diag r l (f @ '' is required'')]"
    by (simp_all add: rep_ops diag_def)
  then have has: "hasErrors (add r l m)" "hasErrors (addRequired r f)"
    "hasErrors (addRequiredNoLine r f)" "hasErrors (addRequiredAt r l f)"
    by (simp_all add: hasErrors_def)
  have pod: "validatePod doc r = Some r' \<longrightarrow>
      prefix (errs r) (errs r') \<and> (hasErrors r \<longrightarrow> hasErrors r')"
    using appendsOnly_prefix [OF validatePod_appends] by blast
  have main: "mainLoop docs r = Some r'' \<longrightarrow>
      prefix (errs r) (errs r'') \<and> (hasErrors r \<longrightarrow> hasErrors r'')"
    using appendsOnly_prefix [OF mainLoop_appends] by blast
  from ops has pod main show ?thesis by blast
qed

lemmas pod_defs = validatePod_def validatePod_apiVersion_def validatePod_kind_def
  validatePod_metadata_def validatePod_spec_def getField_def

theorem reporter_append_only_witness:
  "validatePod (Node MappingNode [] [] 3 [])
     \<lparr>reporter.file = ''pod.yaml'',
       errs = [\<lparr>errOut.file = ''pod.yaml'', line = 2, msg = ''root must be object''\<rparr>]\<rparr> =
   Some \<lparr>reporter.file = ''pod.yaml'',
       errs = [\<lparr>errOut.file = ''pod.yaml'', line = 2, msg = ''root must be object''\<rparr>,
               \<lparr>errOut.file = ''pod.yaml'', line = 0, msg = ''apiVersion is required''\<rparr>,
               \<lparr>errOut.file = ''pod.yaml'', line = 0, msg = ''kind is required''\<rparr>,
               \<lparr>errOut.file = ''pod.yaml'', line = 0, msg = ''metadata is required''\<rparr>,
               \<lparr>errOut.file = ''pod.yaml'', line = 0, msg = ''spec is required''\<rparr>]\<rparr> \<and>
   mainLoop [Node MappingNode [] [] 3 []]
     \<lparr>reporter.file = ''pod.yaml'',
       errs = [\<lparr>errOut.file = ''pod.yaml'', line = 2, msg = ''root must be object''\<rparr>]\<rparr> =
   Some \<lparr>reporter.file = ''pod.yaml'',
       errs = [\<lparr>errOut.file = ''pod.yaml'', line = 2, msg = ''root must be object''\<rparr>,
               \<lparr>errOut.file = ''pod.yaml'', line = 0, msg = ''apiVersion is required''\<rparr>,
               \<lparr>errOut.file = ''pod.yaml'', line = 0, msg = ''kind is required''\<rparr>,
               \<lparr>errOut.file = ''pod.yaml'', line = 0, msg = ''metadata is required''\<rparr>,
               \<lparr>errOut.file = ''pod.yaml'', line = 0, msg = ''spec is required''\<rparr>]\<rparr> \<and>
   hasErrors \<lparr>reporter.file = ''pod.yaml'',
       errs = [\<lparr>errOut.file = ''pod.yaml'', line = 2, msg = ''root must be object''\<rparr>]\<rparr> \<and>
   hasErrors \<lparr>reporter.file = ''pod.yaml'',
       errs = [\<lparr>errOut.file = ''pod.yaml'', line = 2, msg = ''root must be object''\<rparr>,
               \<lparr>errOut.file = ''pod.yaml'', line = 0, msg = ''apiVersion is required''\<rparr>,
               \<lparr>errOut.file = ''pod.yaml'', line = 0, msg = ''kind is required''\<rparr>,
               \<lparr>errOut.file = ''pod.yaml'', line = 0, msg = ''metadata is required''\<rparr>,
               \<lparr>errOut.file = ''pod.yaml'', line = 0, msg = ''spec is required''\<rparr>]\<rparr>"
proof -
  let ?r = "\<lparr>reporter.file = ''pod.yaml'',
       errs = [\<lparr>errOut.file = ''pod.yaml'', line = 2, msg = ''root must be object''\<rparr>]\<rparr>"
  let ?r' = "\<lparr>reporter.file = ''pod.yaml'',
       errs = [\<lparr>errOut.file = ''pod.yaml'', line = 2, msg = ''root must be object''\<rparr>,
               \<lparr>errOut.file = ''pod.yaml'', line = 0, msg = ''apiVersion is required''\<rparr>,
               \<lparr>errOut.file = ''pod.yaml'', line = 0, msg = ''kind is required''\<rparr>,
               \<lparr>errOut.file = ''pod.yaml'', line = 0, msg = ''metadata is required''\<rparr>,
               \<lparr>errOut.file = ''pod.yaml'', line = 0, msg = ''spec is required''\<rparr>]\<rparr>"
  have pod: "validatePod (Node MappingNode [] [] 3 []) ?r = Some ?r'"
    by (simp add: pod_defs rep_ops)
  then have main: "mainLoop [Node MappingNode [] [] 3 []] ?r = Some ?r'"
    by simp
  have h: "hasErrors ?r"
    by (simp add: hasErrors_def)
  from reporter_append_only [of ?r _ _ _ "Node MappingNode [] [] 3 []" ?r'
      "[Node MappingNode [] [] 3 []]" ?r'] pod main h
  have "hasErrors ?r'" by blast
  with pod main h show ?thesis by blast
qed

section \<open>The four fields of a Pod are checked independently\<close>





section \<open>The range of a container port\<close>

lemma asInt_line: "snd (asInt n) = Line n"
  by (simp add: asInt_def split: sum.splits)

lemma emitted_containerPort_field:
  assumes "getField n ''containerPort'' = Some (Found cp)"
  shows "emitted (validateContainerPort_containerPort n) rep =
     Some (case fst (asInt cp) of
             Inl e \<Rightarrow> [diag rep (Line cp) ''containerPort must be int'']
           | Inr v \<Rightarrow>
               if v < 1 \<or> 65535 < v then [diag rep (Line cp) ''containerPort value out of range'']
               else [])"
proof -
  obtain res ln where a: "asInt cp = (res, ln)"
    by (cases "asInt cp")
  then have "ln = Line cp"
    using asInt_line [of cp] by simp
  with a assms show ?thesis
    by (cases res)
      (auto simp: emitted_def validateContainerPort_containerPort_def rep_ops diag_def)
qed

text \<open>
  Claim C3. For a ports item that has a \<^verbatim>\<open>containerPort\<close> field, the diagnostics that
  \<^verbatim>\<open>validateContainerPort\<close> appends are those of the port followed by those of the
  protocol. When the field coerces to an integer, the port gives one diagnostic
  \<^verbatim>\<open>containerPort value out of range\<close> if the integer is outside 1..65535 and none if it is
  inside; when the coercion fails it gives one diagnostic \<^verbatim>\<open>containerPort must be int\<close>.
  Each is at the line of the field's node.
\<close>

theorem containerPort_range:
  assumes "getField n ''containerPort'' = Some (Found cp)"
    and "validateContainerPort n rep = Some rep'"
  shows "\<exists>pr. emitted (validateContainerPort_protocol n) rep = Some pr \<and>
     errs rep' = errs rep @
       (case fst (asInt cp) of
          Inl e \<Rightarrow> [diag rep (Line cp) ''containerPort must be int'']
        | Inr v \<Rightarrow>
            if v < 1 \<or> 65535 < v then [diag rep (Line cp) ''containerPort value out of range'']
            else []) @ pr"
proof -
  from appendsOnly_result [OF validateContainerPort_appends assms(2)]
  obtain ds where ds: "emitted (validateContainerPort n) rep = Some ds" and r: "rep' = extend rep ds"
    by blast
  have "emitted (validateContainerPort n) rep =
      emitted (validateContainerPort_containerPort n) rep \<bind> (\<lambda>a.
      emitted (validateContainerPort_protocol n) rep \<bind> (\<lambda>b. Some (a @ b)))"
    unfolding validateContainerPort_def
    by (rule emitted_bind [OF containerPort_field_appends protocol_appends])
  with ds obtain pr where "emitted (validateContainerPort_protocol n) rep = Some pr"
    and "ds = (case fst (asInt cp) of
          Inl e \<Rightarrow> [diag rep (Line cp) ''containerPort must be int'']
        | Inr v \<Rightarrow>
            if v < 1 \<or> 65535 < v then [diag rep (Line cp) ''containerPort value out of range'']
            else []) @ pr"
    by (auto simp: emitted_containerPort_field [OF assms(1)] split: bind_splits)
  with r show ?thesis by simp
qed


lemma containerPort_examples:
  "validateContainerPort
     (Node MappingNode [] [] 3
        [Node ScalarNode ''!!str'' ''containerPort'' 3 [], Node ScalarNode ''!!int'' ''0'' 3 []])
     \<lparr>reporter.file = ''pod.yaml'', errs = []\<rparr> =
   Some \<lparr>reporter.file = ''pod.yaml'', errs =
     [\<lparr>errOut.file = ''pod.yaml'', line = 3, msg = ''containerPort value out of range''\<rparr>]\<rparr>"
  "validateContainerPort
     (Node MappingNode [] [] 3
        [Node ScalarNode ''!!str'' ''containerPort'' 3 [], Node ScalarNode ''!!int'' ''65536'' 3 []])
     \<lparr>reporter.file = ''pod.yaml'', errs = []\<rparr> =
   Some \<lparr>reporter.file = ''pod.yaml'', errs =
     [\<lparr>errOut.file = ''pod.yaml'', line = 3, msg = ''containerPort value out of range''\<rparr>]\<rparr>"
  "validateContainerPort
     (Node MappingNode [] [] 3
        [Node ScalarNode ''!!str'' ''containerPort'' 3 [], Node ScalarNode ''!!int'' ''8080'' 3 []])
     \<lparr>reporter.file = ''pod.yaml'', errs = []\<rparr> =
   Some \<lparr>reporter.file = ''pod.yaml'', errs = []\<rparr>"
  "validateContainerPort
     (Node MappingNode [] [] 3
        [Node ScalarNode ''!!str'' ''containerPort'' 3 [], Node ScalarNode ''!!str'' ''abc'' 3 []])
     \<lparr>reporter.file = ''pod.yaml'', errs = []\<rparr> =
   Some \<lparr>reporter.file = ''pod.yaml'', errs =
     [\<lparr>errOut.file = ''pod.yaml'', line = 3, msg = ''containerPort must be int''\<rparr>]\<rparr>"
  by code_simp+

theorem containerPort_range_witness:
  "getField
     (Node MappingNode [] [] 3
        [Node ScalarNode ''!!str'' ''containerPort'' 3 [], Node ScalarNode ''!!int'' ''65536'' 3 []])
     ''containerPort'' = Some (Found (Node ScalarNode ''!!int'' ''65536'' 3 [])) \<and>
   validateContainerPort
     (Node MappingNode [] [] 3
        [Node ScalarNode ''!!str'' ''containerPort'' 3 [], Node ScalarNode ''!!int'' ''65536'' 3 []])
     \<lparr>reporter.file = ''pod.yaml'', errs = []\<rparr> =
   Some \<lparr>reporter.file = ''pod.yaml'', errs =
     [\<lparr>errOut.file = ''pod.yaml'', line = 3, msg = ''containerPort value out of range''\<rparr>]\<rparr> \<and>
   fst (asInt (Node ScalarNode ''!!int'' ''65536'' 3 [])) = Inr 65536 \<and>
   emitted (validateContainerPort_protocol
     (Node MappingNode [] [] 3
        [Node ScalarNode ''!!str'' ''containerPort'' 3 [], Node ScalarNode ''!!int'' ''65536'' 3 []]))
     \<lparr>reporter.file = ''pod.yaml'', errs = []\<rparr> = Some [] \<and>
   errs \<lparr>reporter.file = ''pod.yaml'', errs =
     [\<lparr>errOut.file = ''pod.yaml'', line = 3, msg = ''containerPort value out of range''\<rparr>]\<rparr> =
   errs \<lparr>reporter.file = ''pod.yaml'', errs = []\<rparr> @
     [diag \<lparr>reporter.file = ''pod.yaml'', errs = []\<rparr> 3 ''containerPort value out of range''] @ []"
proof -
  let ?cp = "Node ScalarNode ''!!int'' ''65536'' 3 []"
  let ?n = "Node MappingNode [] [] 3 [Node ScalarNode ''!!str'' ''containerPort'' 3 [], ?cp]"
  let ?r = "\<lparr>reporter.file = ''pod.yaml'', errs = []\<rparr>"
  let ?r' = "\<lparr>reporter.file = ''pod.yaml'', errs =
     [\<lparr>errOut.file = ''pod.yaml'', line = 3, msg = ''containerPort value out of range''\<rparr>]\<rparr>"
  have g: "getField ?n ''containerPort'' = Some (Found ?cp)"
    by (simp add: getField_def)
  have v: "validateContainerPort ?n ?r = Some ?r'"
    by (rule containerPort_examples(2))
  have a: "fst (asInt ?cp) = Inr 65536"
    by (simp add: asInt_def Atoi_def isDigit_def digitVal_def)
  have p: "emitted (validateContainerPort_protocol ?n) ?r = Some []"
    by (simp add: emitted_def validateContainerPort_protocol_def getField_def fresh_def)
  from containerPort_range [OF g v] p a
  have "errs ?r' = errs ?r @ [diag ?r 3 ''containerPort value out of range''] @ []"
    by simp
  with g v a p show ?thesis by blast
qed

section \<open>An empty list of containers\<close>






section \<open>A probe without a usable httpGet\<close>

text \<open>
  Claim C7, as amended. For a probe node that is a mapping: when \<^verbatim>\<open>httpGet\<close> is absent,
  \<^verbatim>\<open>validateProbe\<close> appends only the diagnostic \<^verbatim>\<open><prefix>.httpGet is required\<close> with
  no line; when \<^verbatim>\<open>httpGet\<close> is present and not a mapping, it appends only
  \<^verbatim>\<open>httpGet must be object\<close> at the line of that node. For a probe node that is not a
  mapping it appends only \<^verbatim>\<open><prefix> must be object\<close> at the line of the probe. In the
  three cases nothing is appended for \<^verbatim>\<open>path\<close> or \<^verbatim>\<open>port\<close>, whatever the nodes hold,
  and the validator does not panic.
\<close>

theorem probe_without_httpGet:
  "(Kind n = MappingNode \<and> getField n ''httpGet'' = Some Absent \<longrightarrow>
      validateProbe n rep pfx = Some (extend rep [diag rep 0 (pfx @ ''.httpGet is required'')])) \<and>
   (Kind n = MappingNode \<and> getField n ''httpGet'' = Some (Found hg) \<and> Kind hg \<noteq> MappingNode \<longrightarrow>
      validateProbe n rep pfx = Some (extend rep [diag rep (Line hg) ''httpGet must be object''])) \<and>
   (Kind n \<noteq> MappingNode \<longrightarrow>
      validateProbe n rep pfx = Some (extend rep [diag rep (Line n) (pfx @ '' must be object'')]))"
  by (simp add: validateProbe_def rep_ops diag_def)

theorem probe_without_httpGet_witness:
  "Kind (Node MappingNode [] [] 9 []) = MappingNode \<and>
   getField (Node MappingNode [] [] 9 []) ''httpGet'' = Some Absent \<and>
   validateProbe (Node MappingNode [] [] 9 []) \<lparr>reporter.file = ''pod.yaml'', errs = []\<rparr>
     ''livenessProbe'' =
   Some \<lparr>reporter.file = ''pod.yaml'', errs =
     [\<lparr>errOut.file = ''pod.yaml'', line = 0, msg = ''livenessProbe.httpGet is required''\<rparr>]\<rparr> \<and>
   Kind (Node MappingNode [] [] 9
          [Node ScalarNode ''!!str'' ''httpGet'' 9 [],
           Node SequenceNode [] [] 10 [Node ScalarNode ''!!str'' ''path'' 10 []]]) = MappingNode \<and>
   getField (Node MappingNode [] [] 9
          [Node ScalarNode ''!!str'' ''httpGet'' 9 [],
           Node SequenceNode [] [] 10 [Node ScalarNode ''!!str'' ''path'' 10 []]]) ''httpGet'' =
   Some (Found (Node SequenceNode [] [] 10 [Node ScalarNode ''!!str'' ''path'' 10 []])) \<and>
   validateProbe (Node MappingNode [] [] 9
          [Node ScalarNode ''!!str'' ''httpGet'' 9 [],
           Node SequenceNode [] [] 10 [Node ScalarNode ''!!str'' ''path'' 10 []]])
     \<lparr>reporter.file = ''pod.yaml'', errs = []\<rparr> ''livenessProbe'' =
   Some \<lparr>reporter.file = ''pod.yaml'', errs =
     [\<lparr>errOut.file = ''pod.yaml'', line = 10, msg = ''httpGet must be object''\<rparr>]\<rparr> \<and>
   Kind (Node ScalarNode ''!!str'' ''x'' 9 []) \<noteq> MappingNode \<and>
   validateProbe (Node ScalarNode ''!!str'' ''x'' 9 [])
     \<lparr>reporter.file = ''pod.yaml'', errs = []\<rparr> ''livenessProbe'' =
   Some \<lparr>reporter.file = ''pod.yaml'', errs =
     [\<lparr>errOut.file = ''pod.yaml'', line = 9, msg = ''livenessProbe must be object''\<rparr>]\<rparr>"
proof -
  let ?r = "\<lparr>reporter.file = ''pod.yaml'', errs = []\<rparr>"
  let ?a = "Node MappingNode [] [] 9 []"
  let ?hg = "Node SequenceNode [] [] 10 [Node ScalarNode ''!!str'' ''path'' 10 []]"
  let ?b = "Node MappingNode [] [] 9 [Node ScalarNode ''!!str'' ''httpGet'' 9 [], ?hg]"
  let ?c = "Node ScalarNode ''!!str'' ''x'' 9 []"
  have ka: "Kind ?a = MappingNode" and ga: "getField ?a ''httpGet'' = Some Absent"
    by (simp_all add: getField_def)
  have kb: "Kind ?b = MappingNode" and gb: "getField ?b ''httpGet'' = Some (Found ?hg)"
    and kh: "Kind ?hg \<noteq> MappingNode"
    by (simp_all add: getField_def)
  have kc: "Kind ?c \<noteq> MappingNode"
    by simp
  have a: "validateProbe ?a ?r ''livenessProbe'' =
      Some (extend ?r [diag ?r 0 (''livenessProbe'' @ ''.httpGet is required'')])"
    using probe_without_httpGet [where n = ?a and rep = ?r and pfx = "''livenessProbe''"] ka ga by blast
  have b: "validateProbe ?b ?r ''livenessProbe'' =
      Some (extend ?r [diag ?r (Line ?hg) ''httpGet must be object''])"
    using probe_without_httpGet [where n = ?b and hg = ?hg and rep = ?r and pfx = "''livenessProbe''"] kb gb kh by blast
  have c: "validateProbe ?c ?r ''livenessProbe'' =
      Some (extend ?r [diag ?r (Line ?c) (''livenessProbe'' @ '' must be object'')])"
    using probe_without_httpGet [where n = ?c and rep = ?r and pfx = "''livenessProbe''"] kc by blast
  from a b c ka ga kb gb kc show ?thesis
    by (simp add: extend_def diag_def)
qed

text \<open>
  The claim as it was stated has no condition on the kind of the probe node. A scalar probe
  has no \<^verbatim>\<open>httpGet\<close> (\<^verbatim>\<open>getField\<close> finds none), and the validator reports that the probe
  must be an object, at its line, not that \<^verbatim>\<open>httpGet\<close> is required.
\<close>

theorem probe_without_httpGet_counterexample:
  "getField (Node ScalarNode ''!!str'' ''x'' 9 []) ''httpGet'' = Some Absent \<and>
   validateProbe (Node ScalarNode ''!!str'' ''x'' 9 [])
     \<lparr>reporter.file = ''pod.yaml'', errs = []\<rparr> ''readinessProbe'' =
   Some \<lparr>reporter.file = ''pod.yaml'', errs =
     [\<lparr>errOut.file = ''pod.yaml'', line = 9, msg = ''readinessProbe must be object''\<rparr>]\<rparr> \<and>
   validateProbe (Node ScalarNode ''!!str'' ''x'' 9 [])
     \<lparr>reporter.file = ''pod.yaml'', errs = []\<rparr> ''readinessProbe'' \<noteq>
   Some (addRequiredNoLine \<lparr>reporter.file = ''pod.yaml'', errs = []\<rparr> ''readinessProbe.httpGet'')"
  by (simp add: getField_def validateProbe_def rep_ops)

section \<open>The coercion of a scalar to an integer\<close>

lemma parseDigits_foldl:
  "parseDigits ds acc =
     (if list_all isDigit ds then Some (foldl (\<lambda>a c. a * 10 + digitVal c) acc ds) else None)"
  by (induction ds arbitrary: acc) simp_all

lemma Atoi_intLiteral:
  "Atoi s = (if intLiteral s then Inr (literalValue s) else Inl NumError)"
proof (cases s)
  case Nil
  then show ?thesis
    by (simp add: Atoi_def intLiteral_def onlyDigits_def unsignedPart_def)
next
  case (Cons c cs)
  then show ?thesis
    by (auto simp: Atoi_def intLiteral_def onlyDigits_def unsignedPart_def literalValue_def
        decimal_def parseDigits_foldl Let_def)
qed

text \<open>
  Claim C2, as amended. \<^verbatim>\<open>asInt\<close> returns the line of the node in every case. It succeeds
  only for a scalar: with the tag \<^verbatim>\<open>!!int\<close> exactly when the text is an integer literal,
  with the tag \<^verbatim>\<open>!!str\<close> exactly when the text without its surrounding white space is an
  integer literal, and then the value is the one of the literal in base 10; with any other
  tag and for any other kind it fails. An integer literal is an optional sign \<^verbatim>\<open>+\<close> or
  \<^verbatim>\<open>-\<close> followed by one or more decimal digits, with a value that fits a 64-bit
  \<^verbatim>\<open>int\<close>.
\<close>

theorem asInt_integer_literal:
  "asInt n =
     (if Kind n = ScalarNode \<and> Tag n = ''!!int'' then
        (if intLiteral (Value n) then Inr (literalValue (Value n)) else Inl NumError)
      else if Kind n = ScalarNode \<and> Tag n = ''!!str'' then
        (if intLiteral (TrimSpace (Value n)) then Inr (literalValue (TrimSpace (Value n)))
         else Inl NotInt)
      else Inl NotInt,
      Line n)"
  by (simp add: asInt_def Atoi_intLiteral)

theorem asInt_integer_literal_witness:
  "intLiteral (TrimSpace '' 80 '') \<and> literalValue (TrimSpace '' 80 '') = 80 \<and>
   asInt (Node ScalarNode ''!!str'' '' 80 '' 3 []) = (Inr 80, 3) \<and>
   intLiteral ''-1'' \<and> literalValue ''-1'' = - 1 \<and>
   asInt (Node ScalarNode ''!!int'' ''-1'' 4 []) = (Inr (- 1), 4) \<and>
   asInt (Node ScalarNode ''!!bool'' ''true'' 5 []) = (Inl NotInt, 5) \<and>
   asInt (Node SequenceNode ''!!seq'' [] 6 []) = (Inl NotInt, 6)"
proof -
  have a: "intLiteral (TrimSpace '' 80 '')" and b: "literalValue (TrimSpace '' 80 '') = 80"
    and c: "intLiteral ''-1''" and d: "literalValue ''-1'' = - 1"
    by code_simp+
  have "asInt (Node ScalarNode ''!!str'' '' 80 '' 3 []) = (Inr 80, 3)"
    using asInt_integer_literal [of "Node ScalarNode ''!!str'' '' 80 '' 3 []"] a b by simp
  moreover have "asInt (Node ScalarNode ''!!int'' ''-1'' 4 []) = (Inr (- 1), 4)"
    using asInt_integer_literal [of "Node ScalarNode ''!!int'' ''-1'' 4 []"] c d by simp
  moreover have "asInt (Node ScalarNode ''!!bool'' ''true'' 5 []) = (Inl NotInt, 5)"
    using asInt_integer_literal [of "Node ScalarNode ''!!bool'' ''true'' 5 []"] by simp
  moreover have "asInt (Node SequenceNode ''!!seq'' [] 6 []) = (Inl NotInt, 6)"
    using asInt_integer_literal [of "Node SequenceNode ''!!seq'' [] 6 []"] by simp
  ultimately show ?thesis
    using a b c d by blast
qed

text \<open>
  The claim as it was stated lets a string-tagged scalar succeed exactly when the trimmed
  text consists of digits only. The text \<^verbatim>\<open>-1\<close> does not, and is coerced to \<open>- 1\<close>
  (the validator then reports a cpu of \<^verbatim>\<open>"-1"\<close> as out of range, not as a wrong type);
  the text \<^verbatim>\<open>9223372036854775808\<close> does, and is refused, being outside the range of
  \<^verbatim>\<open>int\<close>.
\<close>

theorem asInt_only_digits_counterexample:
  "asInt (Node ScalarNode ''!!str'' ''-1'' 1 []) = (Inr (- 1), 1) \<and>
   \<not> onlyDigits (TrimSpace ''-1'') \<and>
   onlyDigits (TrimSpace ''9223372036854775808'') \<and>
   asInt (Node ScalarNode ''!!str'' ''9223372036854775808'' 1 []) = (Inl NotInt, 1)"
  by code_simp

section \<open>The traversal returns\<close>






















section \<open>An empty name\<close>

lemma emitted_objectMeta_name_empty:
  assumes "getField n ''name'' = Some (Found nm)" and "\<not> notStr nm"
    and "TrimSpace (Value nm) = []"
  shows "emitted (validateObjectMeta_name n) rep = Some [diag rep (Line nm) ''name is required'']"
  using assms by (simp add: emitted_def validateObjectMeta_name_def rep_ops diag_def)

lemma validateObjectMeta_split:
  assumes "validateObjectMeta n rep = Some rep'"
  shows "\<exists>a rest. emitted (validateObjectMeta_name n) rep = Some a \<and>
           errs rep' = errs rep @ a @ rest \<and> list_all (\<lambda>e. \<not> nameMsg (msg e)) rest"
proof -
  let ?g = "\<lambda>rep. validateObjectMeta_namespace n rep \<bind> validateObjectMeta_labels n"
  have g: "appendsOnly other ?g"
    by (rule appendsOnly_bind [OF namespace_appends labels_appends])
  from appendsOnly_result [OF validateObjectMeta_appends assms]
  obtain ds where ds: "emitted (validateObjectMeta n) rep = Some ds" and r: "rep' = extend rep ds"
    by blast
  have "emitted (validateObjectMeta n) rep =
      emitted (validateObjectMeta_name n) rep \<bind> (\<lambda>a. emitted ?g rep \<bind> (\<lambda>b. Some (a @ b)))"
    unfolding validateObjectMeta_def
    by (rule emitted_bind [OF objectMeta_name_appends g])
  with ds obtain a b where a: "emitted (validateObjectMeta_name n) rep = Some a"
    and b: "emitted ?g rep = Some b" and "ds = a @ b"
    by (auto split: bind_splits)
  moreover have "list_all (\<lambda>e. \<not> nameMsg (msg e)) b"
    by (rule appendsOnlyD(2) [OF g b])
  ultimately show ?thesis
    using r by auto
qed

lemma validateContainer_split:
  assumes "validateContainer item rep seen = Some (rep', seen')"
  shows "\<exists>r1 rest. validateContainer_name item rep seen = Some (r1, seen') \<and>
           errs rep' = errs r1 @ rest \<and> list_all (\<lambda>e. \<not> nameMsg (msg e)) rest"
proof -
  from assms obtain r1 where n: "validateContainer_name item rep seen = Some (r1, seen')"
    and rest: "validateContainer_rest item r1 = Some rep'"
    by (auto simp: validateContainer_def split: bind_splits)
  from appendsOnly_result [OF rest_appends rest]
  obtain ds where "rep' = extend r1 ds" and "list_all (\<lambda>e. \<not> nameMsg (msg e)) ds"
    by blast
  with n show ?thesis by auto
qed

text \<open>
  The second program. For a metadata mapping whose \<^verbatim>\<open>name\<close> is a string scalar that is
  empty once trimmed, the first diagnostic that \<^verbatim>\<open>validateObjectMeta\<close> appends is
  \<^verbatim>\<open>name is required\<close> at the line of the name node, and no other diagnostic that it
  appends is about a name. The same holds of \<^verbatim>\<open>validateContainer\<close> for a container with
  such a name, and the name is not added to the set of names seen.
\<close>

lemma empty_name_second_program:
  "(getField n ''name'' = Some (Found nm) \<and> \<not> notStr nm \<and> TrimSpace (Value nm) = [] \<and>
    validateObjectMeta n rep = Some rep' \<longrightarrow>
      (\<exists>rest. errs rep' = errs rep @ diag rep (Line nm) ''name is required'' # rest \<and>
         list_all (\<lambda>e. \<not> nameMsg (msg e)) rest)) \<and>
   (getField item ''name'' = Some (Found cnm) \<and> \<not> notStr cnm \<and> TrimSpace (Value cnm) = [] \<and>
    validateContainer item crep seen = Some (crep', seen') \<longrightarrow>
      seen' = seen \<and>
      (\<exists>rest. errs crep' = errs crep @ diag crep (Line cnm) ''name is required'' # rest \<and>
         list_all (\<lambda>e. \<not> nameMsg (msg e)) rest)) \<and>
   ''name is required'' \<noteq> ''metadata.name is required'' \<and>
   ''name is required'' \<noteq> ''containers.name is required'' \<and>
   ''name is required'' \<noteq> ''name has invalid format '' @ quoted v"
proof (intro conjI impI)
  assume a: "getField n ''name'' = Some (Found nm) \<and> \<not> notStr nm \<and>
    TrimSpace (Value nm) = [] \<and> validateObjectMeta n rep = Some rep'"
  then have "emitted (validateObjectMeta_name n) rep = Some [diag rep (Line nm) ''name is required'']"
    by (simp add: emitted_objectMeta_name_empty)
  with validateObjectMeta_split [of n rep rep'] a
  show "\<exists>rest. errs rep' = errs rep @ diag rep (Line nm) ''name is required'' # rest \<and>
         list_all (\<lambda>e. \<not> nameMsg (msg e)) rest"
    by auto
next
  assume a: "getField item ''name'' = Some (Found cnm) \<and> \<not> notStr cnm \<and>
    TrimSpace (Value cnm) = [] \<and> validateContainer item crep seen = Some (crep', seen')"
  then have n: "validateContainer_name item crep seen =
      Some (extend crep [diag crep (Line cnm) ''name is required''], seen)"
    by (simp add: validateContainer_name_def rep_ops diag_def)
  from a validateContainer_split [of item crep seen crep' seen']
  obtain r1 rest where "validateContainer_name item crep seen = Some (r1, seen')"
    and "errs crep' = errs r1 @ rest" and "list_all (\<lambda>e. \<not> nameMsg (msg e)) rest"
    by blast
  with n show "seen' = seen"
    and "\<exists>rest. errs crep' = errs crep @ diag crep (Line cnm) ''name is required'' # rest \<and>
         list_all (\<lambda>e. \<not> nameMsg (msg e)) rest"
    by auto
qed (simp_all add: quoted_def)

section \<open>Names of containers: duplicates and registration\<close>

lemma nameMsg_duplicateMsg: "nameMsg duplicateMsg"
  by (simp add: nameMsg_def duplicateMsg_def HasPrefix_def)

lemma filter_duplicate_other:
  "list_all (\<lambda>e. \<not> nameMsg (msg e)) ds \<Longrightarrow> filter (\<lambda>e. msg e = duplicateMsg) ds = []"
  using nameMsg_duplicateMsg by (induction ds) auto

lemma newErrs_extend [simp]: "newErrs rep (extend rep ds) = ds"
  by (simp add: newErrs_def)

lemma validName_SomeD:
  assumes "validName item = Some nm"
  shows "Kind item = MappingNode" and "getField item ''name'' = Some (Found nm)"
    and "\<not> notStr nm" and "TrimSpace (Value nm) \<noteq> []" and "reSnake (Value nm)"
  using assms
  by (auto simp: validName_def split: if_splits option.splits field.splits)

lemma validName_NoneD:
  assumes "validName item = None" and "getField item ''name'' = Some (Found nm)"
  shows "notStr nm \<or> TrimSpace (Value nm) = [] \<or> \<not> reSnake (Value nm)"
  using assms by (auto simp: validName_def getField_def split: if_splits)

lemma newErrs_split:
  assumes "errs r1 = errs rep @ a" and "errs rep' = errs r1 @ b"
  shows "newErrs rep rep' = a @ b"
  using assms by (simp add: newErrs_def)

lemma validateContainer_valid_name:
  assumes v: "validName item = Some nm"
    and c: "validateContainer item rep seen = Some (rep', seen')"
  shows "seen' = insert (Value nm) seen"
    and "filter (\<lambda>e. msg e = duplicateMsg) (newErrs rep rep') =
         (if Value nm \<in> seen then [diag rep (Line nm) duplicateMsg] else [])"
proof -
  note d = validName_SomeD [OF v]
  have n: "validateContainer_name item rep seen =
      Some (extend rep (if Value nm \<in> seen then [diag rep (Line nm) duplicateMsg] else []),
            insert (Value nm) seen)"
    using d by (simp add: validateContainer_name_def rep_ops diag_def Let_def)
  from validateContainer_split [OF c]
  obtain r1 rest where r1: "validateContainer_name item rep seen = Some (r1, seen')"
    and e: "errs rep' = errs r1 @ rest" and o: "list_all (\<lambda>e. \<not> nameMsg (msg e)) rest"
    by blast
  from n r1 show "seen' = insert (Value nm) seen"
    by simp
  from n r1
  have "errs r1 = errs rep @ (if Value nm \<in> seen then [diag rep (Line nm) duplicateMsg] else [])"
    by auto
  from newErrs_split [OF this e]
  show "filter (\<lambda>e. msg e = duplicateMsg) (newErrs rep rep') =
         (if Value nm \<in> seen then [diag rep (Line nm) duplicateMsg] else [])"
    using filter_duplicate_other [OF o] by (simp add: diag_def)
qed

lemma validateContainer_seen:
  assumes "validateContainer item rep seen = Some (rep', seen')"
  shows "seen' = (case validName item of None \<Rightarrow> seen | Some nm \<Rightarrow> insert (Value nm) seen)"
proof (cases "validName item")
  case (Some nm)
  with validateContainer_valid_name(1) [OF Some assms] show ?thesis by simp
next
  case None
  from assms obtain r1 where n: "validateContainer_name item rep seen = Some (r1, seen')"
    by (auto simp: validateContainer_def split: bind_splits)
  then obtain f where f: "getField item ''name'' = Some f"
    by (auto simp: validateContainer_name_def split: bind_splits)
  show ?thesis
  proof (cases f)
    case Absent
    with n f None show ?thesis
      by (simp add: validateContainer_name_def)
  next
    case (Found nm)
    with validName_NoneD [OF None] f
    have "notStr nm \<or> TrimSpace (Value nm) = [] \<or> \<not> reSnake (Value nm)"
      by simp
    with n f Found None show ?thesis
      by (auto simp: validateContainer_name_def split: if_splits)
  qed
qed

lemma nameValues_Nil [simp]: "nameValues [] = {}"
  by (simp add: nameValues_def List.map_filter_simps)

lemma nameValues_Cons:
  "nameValues (item # items) =
     (case validName item of None \<Rightarrow> {} | Some nm \<Rightarrow> {Value nm}) \<union> nameValues items"
  by (simp add: nameValues_def List.map_filter_simps split: option.splits)

lemma nameValues_append: "nameValues (xs @ ys) = nameValues xs \<union> nameValues ys"
  by (induction xs) (auto simp: nameValues_Cons split: option.splits)

lemma validName_not_mapping: "Kind item \<noteq> MappingNode \<Longrightarrow> validName item = None"
  by (simp add: validName_def)

lemma containersLoop_seen:
  "containersLoop items rep seen = Some (rep', seen') \<Longrightarrow> seen' = seen \<union> nameValues items"
proof (induction items arbitrary: rep seen)
  case Nil
  then show ?case by simp
next
  case (Cons item items)
  show ?case
  proof (cases "Kind item \<noteq> MappingNode")
    case True
    with Cons.prems Cons.IH show ?thesis
      by (simp add: nameValues_Cons validName_not_mapping)
  next
    case False
    with Cons.prems obtain r1 s1 where c: "validateContainer item rep seen = Some (r1, s1)"
      and l: "containersLoop items r1 s1 = Some (rep', seen')"
      by (auto split: bind_splits)
    from Cons.IH [OF l] validateContainer_seen [OF c] show ?thesis
      by (auto simp: nameValues_Cons split: option.splits)
  qed
qed




lemma diag_extend [simp]: "diag (extend rep ds) = diag rep"
  by (simp add: diag_def extend_def fun_eq_iff)






section \<open>Names that are not valid are not registered\<close>

lemma reSnake_duplicate: "reSnake ''duplicate''"
  by (simp add: reSnake_def isLower_def)

lemma format_not_duplicate:
  "\<not> reSnake v \<Longrightarrow> ''name has invalid format '' @ quoted v \<noteq> duplicateMsg"
  using reSnake_duplicate by (auto simp: duplicateMsg_def quoted_def)

lemma required_not_duplicate: "''name is required'' \<noteq> duplicateMsg"
  by (simp add: duplicateMsg_def)

text \<open>
  The second program. The names that the loop over the containers registers are exactly
  the valid ones: those of a string scalar that is not empty once trimmed and matches the
  snake case pattern. A container whose name is a string scalar that is empty once trimmed
  or is not in snake case leaves the set of names as it is, whatever it holds; the first
  diagnostic it gets is its own, at the line of its name: \<^verbatim>\<open>name is required\<close> for an
  empty name and \<^verbatim>\<open>name has invalid format '<value>'\<close> otherwise; it gets no other
  diagnostic about its name, and none with the text \<^verbatim>\<open>duplicate\<close>.
\<close>

lemma invalid_names_second_program:
  "(containersLoop items rep seen = Some (rep', seen') \<longrightarrow> seen' = seen \<union> nameValues items) \<and>
   (validName item = Some vnm \<longrightarrow>
      Kind vnm = ScalarNode \<and> Tag vnm = ''!!str'' \<and> TrimSpace (Value vnm) \<noteq> [] \<and>
      reSnake (Value vnm)) \<and>
   (getField item ''name'' = Some (Found nm) \<and> \<not> notStr nm \<and>
    (TrimSpace (Value nm) = [] \<or> \<not> reSnake (Value nm)) \<and>
    validateContainer item crep cseen = Some (crep', cseen') \<longrightarrow>
      cseen' = cseen \<and>
      (\<exists>rest. errs crep' = errs crep @
          (if TrimSpace (Value nm) = [] then diag crep (Line nm) ''name is required''
           else diag crep (Line nm) (''name has invalid format '' @ quoted (Value nm))) # rest \<and>
         list_all (\<lambda>e. \<not> nameMsg (msg e)) rest) \<and>
      filter (\<lambda>e. msg e = duplicateMsg) (newErrs crep crep') = [])"
proof (intro conjI impI)
  assume "containersLoop items rep seen = Some (rep', seen')"
  then show "seen' = seen \<union> nameValues items"
    by (rule containersLoop_seen)
next
  assume v: "validName item = Some vnm"
  from validName_SomeD(3-5) [OF v]
  show "Kind vnm = ScalarNode" "Tag vnm = ''!!str''" "TrimSpace (Value vnm) \<noteq> []"
    "reSnake (Value vnm)"
    by (simp_all add: notStr_def)
next
  assume a: "getField item ''name'' = Some (Found nm) \<and> \<not> notStr nm \<and>
    (TrimSpace (Value nm) = [] \<or> \<not> reSnake (Value nm)) \<and>
    validateContainer item crep cseen = Some (crep', cseen')"
  let ?d = "if TrimSpace (Value nm) = [] then diag crep (Line nm) ''name is required''
           else diag crep (Line nm) (''name has invalid format '' @ quoted (Value nm))"
  from a have n: "validateContainer_name item crep cseen = Some (extend crep [?d], cseen)"
    by (auto simp: validateContainer_name_def rep_ops diag_def)
  from a validateContainer_split [of item crep cseen crep' cseen']
  obtain r1 rest where r1: "validateContainer_name item crep cseen = Some (r1, cseen')"
    and e: "errs crep' = errs r1 @ rest" and o: "list_all (\<lambda>e. \<not> nameMsg (msg e)) rest"
    by blast
  from n r1 show "cseen' = cseen"
    by simp
  from n r1 have e1: "errs r1 = errs crep @ [?d]"
    by auto
  with e o show "\<exists>rest. errs crep' = errs crep @ ?d # rest \<and>
         list_all (\<lambda>e. \<not> nameMsg (msg e)) rest"
    by auto
  have "msg ?d \<noteq> duplicateMsg"
    using a format_not_duplicate [of "Value nm"] required_not_duplicate
    by (auto simp: diag_def)
  then show "filter (\<lambda>e. msg e = duplicateMsg) (newErrs crep crep') = []"
    using newErrs_split [OF e1 e] filter_duplicate_other [OF o] by simp
qed

section \<open>The first program on names\<close>

lemma addRequired_eq: "addRequired = addRequiredNoLine"
  by (simp add: fun_eq_iff addRequired_def addRequiredNoLine_def)

lemma labelsLoop_rev1_appends: "appendsOnly other (labelsLoop_rev1 cs)"
proof (induction cs rule: induct_list012)
  case 1
  show ?case by (simp add: appendsOnly_def emitted_def rep_ops)
next
  case (2 k)
  show ?case by (simp add: appendsOnly_def emitted_def)
next
  case (3 k v rest)
  let ?step = "\<lambda>rep. Some
     (let rep1 = (if notStr v then add rep (Line v) ''labels value must be string'' else rep)
      in if notStr k then add rep1 (Line k) ''labels key must be string'' else rep1)"
  have "appendsOnly other ?step"
    by (auto simp: appendsOnly_def emitted_def rep_ops msg_simps Let_def)
  then have "appendsOnly other (\<lambda>rep. ?step rep \<bind> labelsLoop_rev1 rest)"
    using "3.IH"(1) by (rule appendsOnly_bind)
  moreover have "labelsLoop_rev1 (k # v # rest) = (\<lambda>rep. ?step rep \<bind> labelsLoop_rev1 rest)"
    by (simp add: fun_eq_iff Let_def)
  ultimately show ?case by simp
qed

lemma labels_rev1_appends: "appendsOnly other (validateObjectMeta_labels_rev1 n)"
  unfolding validateObjectMeta_labels_rev1_def
  by (intro appendsOnly_const_bind appendsOnly_field appendsOnly_if appendsOnly_Some
      appendsOnly_add labelsLoop_rev1_appends) (simp_all add: msg_simps)

lemma objectMeta_name_rev1_appends: "appendsOnly (\<lambda>_. True) (validateObjectMeta_name_rev1 n)"
  unfolding validateObjectMeta_name_rev1_def
  by (auto simp: appendsOnly_def emitted_def rep_ops split: bind_splits field.splits)

lemma validateObjectMeta_rev1_split:
  assumes "validateObjectMeta_rev1 n rep = Some rep'"
  shows "\<exists>a rest. emitted (validateObjectMeta_name_rev1 n) rep = Some a \<and>
           errs rep' = errs rep @ a @ rest \<and> list_all (\<lambda>e. \<not> nameMsg (msg e)) rest"
proof -
  let ?g = "\<lambda>rep. validateObjectMeta_namespace n rep \<bind> validateObjectMeta_labels_rev1 n"
  have g: "appendsOnly other ?g"
    by (rule appendsOnly_bind [OF namespace_appends labels_rev1_appends])
  have all: "appendsOnly (\<lambda>_. True) (validateObjectMeta_rev1 n)"
    unfolding validateObjectMeta_rev1_def
    by (intro appendsOnly_bind objectMeta_name_rev1_appends
        appendsOnly_mono [OF namespace_appends] appendsOnly_mono [OF labels_rev1_appends])
       simp_all
  from appendsOnly_result [OF all assms]
  obtain ds where ds: "emitted (validateObjectMeta_rev1 n) rep = Some ds"
    and r: "rep' = extend rep ds"
    by blast
  have "emitted (validateObjectMeta_rev1 n) rep =
      emitted (validateObjectMeta_name_rev1 n) rep \<bind> (\<lambda>a. emitted ?g rep \<bind> (\<lambda>b. Some (a @ b)))"
    unfolding validateObjectMeta_rev1_def
    by (rule emitted_bind [OF objectMeta_name_rev1_appends g])
  with ds obtain a b where a: "emitted (validateObjectMeta_name_rev1 n) rep = Some a"
    and b: "emitted ?g rep = Some b" and "ds = a @ b"
    by (auto split: bind_splits)
  moreover have "list_all (\<lambda>e. \<not> nameMsg (msg e)) b"
    by (rule appendsOnlyD(2) [OF g b])
  ultimately show ?thesis
    using r by auto
qed

lemma resKV_entry_rev1_appends:
  "resPrefix pfx \<Longrightarrow> appendsOnly other (\<lambda>rep. Some (validateResKV_entry_rev1 k v rep pfx))"
  unfolding validateResKV_entry_rev1_def resPrefix_def
  by (auto simp: appendsOnly_def emitted_def rep_ops msg_simps split: prod.splits sum.splits)

lemma resKV_loop_rev1_appends:
  assumes "resPrefix pfx"
  shows "appendsOnly other (\<lambda>rep. validateResKV_loop_rev1 cs rep pfx)"
proof (induction cs rule: induct_list012)
  case 1
  show ?case by (simp add: appendsOnly_def emitted_def rep_ops)
next
  case (2 k)
  show ?case by (simp add: appendsOnly_def emitted_def)
next
  case (3 k v rest)
  have "appendsOnly other
          (\<lambda>rep. Some (validateResKV_entry_rev1 k v rep pfx)
             \<bind> (\<lambda>rep. validateResKV_loop_rev1 rest rep pfx))"
    using resKV_entry_rev1_appends [OF assms] "3.IH"(1) by (rule appendsOnly_bind)
  then show ?case by simp
qed

lemma validateResKV_rev1_appends:
  assumes "resPrefix pfx"
  shows "appendsOnly other (\<lambda>rep. validateResKV_rev1 n rep pfx)"
proof -
  have m: "other (pfx @ '' must be object'')"
    using assms by (auto simp: resPrefix_def msg_simps)
  show ?thesis
    unfolding validateResKV_rev1_def
    by (intro appendsOnly_if appendsOnly_add resKV_loop_rev1_appends assms m)
qed

lemma validateResources_rev1_appends: "appendsOnly other (validateResources_rev1 n)"
proof -
  have lim: "appendsOnly other
     (\<lambda>rep. case f of Absent \<Rightarrow> Some rep
        | Found lim \<Rightarrow> validateResKV_rev1 lim rep ''resources.limits'')"
    for f
    by (intro appendsOnly_field appendsOnly_Some validateResKV_rev1_appends)
       (simp add: resPrefix_def)
  have req: "appendsOnly other
     (\<lambda>rep. case g of Absent \<Rightarrow> Some rep
        | Found req \<Rightarrow> validateResKV_rev1 req rep ''resources.requests'')"
    for g
    by (intro appendsOnly_field appendsOnly_Some validateResKV_rev1_appends)
       (simp add: resPrefix_def)
  have "appendsOnly other (\<lambda>rep. getField n ''limits'' \<bind> (\<lambda>f.
          (case f of Absent \<Rightarrow> Some rep
             | Found lim \<Rightarrow> validateResKV_rev1 lim rep ''resources.limits'')
          \<bind> (\<lambda>rep. getField n ''requests'' \<bind> (\<lambda>g.
            case g of Absent \<Rightarrow> Some rep
              | Found req \<Rightarrow> validateResKV_rev1 req rep ''resources.requests''))))"
    by (intro appendsOnly_const_bind appendsOnly_bind lim req)
  then show ?thesis
    unfolding validateResources_rev1_def
    by (intro appendsOnly_if appendsOnly_add) (simp_all add: msg_simps)
qed

lemma resources_rev1_appends: "appendsOnly other (validatePodSpec_resources_rev1 item)"
  unfolding validatePodSpec_resources_rev1_def addRequired_eq
  by (intro appendsOnly_const_bind appendsOnly_field appendsOnly_addRequiredNoLine
      validateResources_rev1_appends) (simp_all add: msg_simps)

lemma rest_rev1_appends: "appendsOnly other (validatePodSpec_rest_rev1 item)"
  unfolding validatePodSpec_rest_rev1_def
  by (intro appendsOnly_bind image_appends ports_appends probe_appends resources_rev1_appends)
     (simp_all add: probePrefix_def)

lemma validatePodSpec_item_rev1_split:
  assumes "validatePodSpec_item_rev1 item rep seen = Some (rep', seen')"
  shows "\<exists>r1 rest. validatePodSpec_name_rev1 item rep seen = Some (r1, seen') \<and>
           errs rep' = errs r1 @ rest \<and> list_all (\<lambda>e. \<not> nameMsg (msg e)) rest"
proof -
  from assms obtain r1 where n: "validatePodSpec_name_rev1 item rep seen = Some (r1, seen')"
    and rest: "validatePodSpec_rest_rev1 item r1 = Some rep'"
    by (auto simp: validatePodSpec_item_rev1_def split: bind_splits)
  from appendsOnly_result [OF rest_rev1_appends rest]
  obtain ds where "rep' = extend r1 ds" and "list_all (\<lambda>e. \<not> nameMsg (msg e)) ds"
    by blast
  with n show ?thesis by auto
qed

lemma validatePodSpec_item_rev1_seen:
  assumes "validatePodSpec_item_rev1 item rep seen = Some (rep', seen')"
  shows "seen' = (case validName item of None \<Rightarrow> seen | Some nm \<Rightarrow> insert (Value nm) seen)"
proof -
  from assms obtain r1 where n: "validatePodSpec_name_rev1 item rep seen = Some (r1, seen')"
    by (auto simp: validatePodSpec_item_rev1_def split: bind_splits)
  then obtain f where f: "getField item ''name'' = Some f"
    by (auto simp: validatePodSpec_name_rev1_def split: bind_splits)
  show ?thesis
  proof (cases "validName item")
    case (Some nm)
    note d = validName_SomeD [OF Some]
    with n show ?thesis
      by (simp add: validatePodSpec_name_rev1_def Some Let_def)
  next
    case None
    show ?thesis
    proof (cases f)
      case Absent
      with n f None show ?thesis
        by (simp add: validatePodSpec_name_rev1_def)
    next
      case (Found nm)
      with validName_NoneD [OF None] f
      have "notStr nm \<or> TrimSpace (Value nm) = [] \<or> \<not> reSnake (Value nm)"
        by simp
      with n f Found None show ?thesis
        by (auto simp: validatePodSpec_name_rev1_def split: if_splits)
    qed
  qed
qed

lemma containersLoop_rev1_seen:
  "containersLoop_rev1 items rep seen = Some (rep', seen') \<Longrightarrow> seen' = seen \<union> nameValues items"
proof (induction items arbitrary: rep seen)
  case Nil
  then show ?case by simp
next
  case (Cons item items)
  show ?case
  proof (cases "Kind item \<noteq> MappingNode")
    case True
    with Cons.prems Cons.IH show ?thesis
      by (simp add: nameValues_Cons validName_not_mapping)
  next
    case False
    with Cons.prems obtain r1 s1 where c: "validatePodSpec_item_rev1 item rep seen = Some (r1, s1)"
      and l: "containersLoop_rev1 items r1 s1 = Some (rep', seen')"
      by (auto split: bind_splits)
    from Cons.IH [OF l] validatePodSpec_item_rev1_seen [OF c] show ?thesis
      by (auto simp: nameValues_Cons split: option.splits)
  qed
qed


lemma empty_name_first_program:
  "(getField n ''name'' = Some (Found nm) \<and> \<not> notStr nm \<and> TrimSpace (Value nm) = [] \<and>
    validateObjectMeta_rev1 n rep = Some rep1' \<longrightarrow>
      (\<exists>rest. errs rep1' = errs rep @
          diag rep (Line nm) (''name has invalid format '' @ quoted []) # rest \<and>
         list_all (\<lambda>e. \<not> nameMsg (msg e)) rest)) \<and>
   (getField item ''name'' = Some (Found cnm) \<and> \<not> notStr cnm \<and> TrimSpace (Value cnm) = [] \<and>
    validatePodSpec_item_rev1 item crep seen = Some (crep1', seen1') \<longrightarrow>
      seen1' = seen \<and>
      (\<exists>rest. errs crep1' = errs crep @
          diag crep (Line cnm) (''name has invalid format '' @ quoted (Value cnm)) # rest \<and>
         list_all (\<lambda>e. \<not> nameMsg (msg e)) rest))"
proof (intro conjI impI)
  assume a: "getField n ''name'' = Some (Found nm) \<and> \<not> notStr nm \<and>
    TrimSpace (Value nm) = [] \<and> validateObjectMeta_rev1 n rep = Some rep1'"
  then have "emitted (validateObjectMeta_name_rev1 n) rep =
      Some [diag rep (Line nm) (''name has invalid format '' @ quoted [])]"
    by (simp add: emitted_def validateObjectMeta_name_rev1_def rep_ops diag_def)
  with validateObjectMeta_rev1_split [of n rep rep1'] a
  show "\<exists>rest. errs rep1' = errs rep @
          diag rep (Line nm) (''name has invalid format '' @ quoted []) # rest \<and>
         list_all (\<lambda>e. \<not> nameMsg (msg e)) rest"
    by auto
next
  assume a: "getField item ''name'' = Some (Found cnm) \<and> \<not> notStr cnm \<and>
    TrimSpace (Value cnm) = [] \<and> validatePodSpec_item_rev1 item crep seen = Some (crep1', seen1')"
  then have n: "validatePodSpec_name_rev1 item crep seen =
      Some (extend crep [diag crep (Line cnm) (''name has invalid format '' @ quoted (Value cnm))],
            seen)"
    by (simp add: validatePodSpec_name_rev1_def rep_ops diag_def)
  from a validatePodSpec_item_rev1_split [of item crep seen crep1' seen1']
  obtain r1 rest where "validatePodSpec_name_rev1 item crep seen = Some (r1, seen1')"
    and "errs crep1' = errs r1 @ rest" and "list_all (\<lambda>e. \<not> nameMsg (msg e)) rest"
    by blast
  with n show "seen1' = seen"
    and "\<exists>rest. errs crep1' = errs crep @
          diag crep (Line cnm) (''name has invalid format '' @ quoted (Value cnm)) # rest \<and>
         list_all (\<lambda>e. \<not> nameMsg (msg e)) rest"
    by auto
qed

text \<open>
  Claim C1, as amended. Take a metadata mapping whose \<^verbatim>\<open>name\<close> is a string scalar that
  is empty once trimmed. Both programs of \<^verbatim>\<open>main.go\<close> append for it one diagnostic about
  the name, first, at the line of the name node, and no other diagnostic about a name. In
  the second program (\<^verbatim>\<open>validateObjectMeta\<close> from line 615) its message is exactly
  \<^verbatim>\<open>name is required\<close>, which is not the message of an absent field and not one of an
  invalid format. In the first program (\<^verbatim>\<open>validateObjectMeta\<close> from line 154) its message
  is \<^verbatim>\<open>name has invalid format ''\<close>. The same holds for a container with such a name,
  of \<^verbatim>\<open>validateContainer\<close> in the second program and of the loop of \<^verbatim>\<open>validatePodSpec\<close>
  in the first, where the message is \<^verbatim>\<open>name has invalid format '<value>'\<close> with the
  value as it is written; in both the name is not added to the names seen.
\<close>

theorem empty_name_diagnostic:
  "((getField n ''name'' = Some (Found nm) \<and> \<not> notStr nm \<and> TrimSpace (Value nm) = [] \<and>
     validateObjectMeta n rep = Some rep' \<longrightarrow>
       (\<exists>rest. errs rep' = errs rep @ diag rep (Line nm) ''name is required'' # rest \<and>
          list_all (\<lambda>e. \<not> nameMsg (msg e)) rest)) \<and>
    (getField item ''name'' = Some (Found cnm) \<and> \<not> notStr cnm \<and> TrimSpace (Value cnm) = [] \<and>
     validateContainer item crep seen = Some (crep', seen') \<longrightarrow>
       seen' = seen \<and>
       (\<exists>rest. errs crep' = errs crep @ diag crep (Line cnm) ''name is required'' # rest \<and>
          list_all (\<lambda>e. \<not> nameMsg (msg e)) rest)) \<and>
    ''name is required'' \<noteq> ''metadata.name is required'' \<and>
    ''name is required'' \<noteq> ''containers.name is required'' \<and>
    ''name is required'' \<noteq> ''name has invalid format '' @ quoted v) \<and>
   ((getField n ''name'' = Some (Found nm) \<and> \<not> notStr nm \<and> TrimSpace (Value nm) = [] \<and>
     validateObjectMeta_rev1 n rep = Some rep1' \<longrightarrow>
       (\<exists>rest. errs rep1' = errs rep @
           diag rep (Line nm) (''name has invalid format '' @ quoted []) # rest \<and>
          list_all (\<lambda>e. \<not> nameMsg (msg e)) rest)) \<and>
    (getField item ''name'' = Some (Found cnm) \<and> \<not> notStr cnm \<and> TrimSpace (Value cnm) = [] \<and>
     validatePodSpec_item_rev1 item crep seen = Some (crep1', seen1') \<longrightarrow>
       seen1' = seen \<and>
       (\<exists>rest. errs crep1' = errs crep @
           diag crep (Line cnm) (''name has invalid format '' @ quoted (Value cnm)) # rest \<and>
          list_all (\<lambda>e. \<not> nameMsg (msg e)) rest)))"
  by (rule conjI [OF empty_name_second_program empty_name_first_program])

theorem empty_name_diagnostic_witness:
  "getField (Node MappingNode ''!!map'' [] 4 [Node ScalarNode ''!!str'' ''name'' 4 [], Node ScalarNode ''!!str'' ''  '' 4 []]) ''name'' = Some (Found (Node ScalarNode ''!!str'' ''  '' 4 [])) \<and>
   \<not> notStr (Node ScalarNode ''!!str'' ''  '' 4 []) \<and> TrimSpace (Value (Node ScalarNode ''!!str'' ''  '' 4 [])) = [] \<and>
   validateObjectMeta (Node MappingNode ''!!map'' [] 4 [Node ScalarNode ''!!str'' ''name'' 4 [], Node ScalarNode ''!!str'' ''  '' 4 []]) \<lparr>reporter.file = ''pod.yaml'', errs = []\<rparr> =
     Some \<lparr>reporter.file = ''pod.yaml'', errs = [\<lparr>errOut.file = ''pod.yaml'', line = 4, msg = ''name is required''\<rparr>]\<rparr> \<and>
   validateObjectMeta_rev1 (Node MappingNode ''!!map'' [] 4 [Node ScalarNode ''!!str'' ''name'' 4 [], Node ScalarNode ''!!str'' ''  '' 4 []]) \<lparr>reporter.file = ''pod.yaml'', errs = []\<rparr> =
     Some \<lparr>reporter.file = ''pod.yaml'', errs = [\<lparr>errOut.file = ''pod.yaml'', line = 4, msg = ''name has invalid format '' @ quoted []\<rparr>]\<rparr> \<and>
   getField (Node MappingNode ''!!map'' [] 7
       [Node ScalarNode ''!!str'' ''name'' 7 [], Node ScalarNode ''!!str'' [] 7 [],
        Node ScalarNode ''!!str'' ''image'' 8 [],
        Node ScalarNode ''!!str'' ''registry.bigbrother.io/app:1.0'' 8 [],
        Node ScalarNode ''!!str'' ''resources'' 9 [], Node MappingNode ''!!map'' [] 9 []]) ''name'' = Some (Found (Node ScalarNode ''!!str'' [] 7 [])) \<and>
   \<not> notStr (Node ScalarNode ''!!str'' [] 7 []) \<and> TrimSpace (Value (Node ScalarNode ''!!str'' [] 7 [])) = [] \<and>
   validateContainer (Node MappingNode ''!!map'' [] 7
       [Node ScalarNode ''!!str'' ''name'' 7 [], Node ScalarNode ''!!str'' [] 7 [],
        Node ScalarNode ''!!str'' ''image'' 8 [],
        Node ScalarNode ''!!str'' ''registry.bigbrother.io/app:1.0'' 8 [],
        Node ScalarNode ''!!str'' ''resources'' 9 [], Node MappingNode ''!!map'' [] 9 []]) \<lparr>reporter.file = ''pod.yaml'', errs = []\<rparr> {''web''} =
     Some (\<lparr>reporter.file = ''pod.yaml'', errs = [\<lparr>errOut.file = ''pod.yaml'', line = 7, msg = ''name is required''\<rparr>]\<rparr>, {''web''}) \<and>
   validatePodSpec_item_rev1 (Node MappingNode ''!!map'' [] 7
       [Node ScalarNode ''!!str'' ''name'' 7 [], Node ScalarNode ''!!str'' [] 7 [],
        Node ScalarNode ''!!str'' ''image'' 8 [],
        Node ScalarNode ''!!str'' ''registry.bigbrother.io/app:1.0'' 8 [],
        Node ScalarNode ''!!str'' ''resources'' 9 [], Node MappingNode ''!!map'' [] 9 []]) \<lparr>reporter.file = ''pod.yaml'', errs = []\<rparr> {''web''} =
     Some (\<lparr>reporter.file = ''pod.yaml'', errs = [\<lparr>errOut.file = ''pod.yaml'', line = 7, msg = ''name has invalid format '' @ quoted []\<rparr>]\<rparr>, {''web''}) \<and>
   errs \<lparr>reporter.file = ''pod.yaml'', errs = [\<lparr>errOut.file = ''pod.yaml'', line = 4, msg = ''name is required''\<rparr>]\<rparr> = errs \<lparr>reporter.file = ''pod.yaml'', errs = []\<rparr> @ [diag \<lparr>reporter.file = ''pod.yaml'', errs = []\<rparr> 4 ''name is required''] \<and>
   errs \<lparr>reporter.file = ''pod.yaml'', errs = [\<lparr>errOut.file = ''pod.yaml'', line = 7, msg = ''name is required''\<rparr>]\<rparr> = errs \<lparr>reporter.file = ''pod.yaml'', errs = []\<rparr> @ [diag \<lparr>reporter.file = ''pod.yaml'', errs = []\<rparr> 7 ''name is required''] \<and>
   errs \<lparr>reporter.file = ''pod.yaml'', errs = [\<lparr>errOut.file = ''pod.yaml'', line = 4, msg = ''name has invalid format '' @ quoted []\<rparr>]\<rparr> = errs \<lparr>reporter.file = ''pod.yaml'', errs = []\<rparr> @ [diag \<lparr>reporter.file = ''pod.yaml'', errs = []\<rparr> 4 (''name has invalid format '' @ quoted [])] \<and>
   errs \<lparr>reporter.file = ''pod.yaml'', errs = [\<lparr>errOut.file = ''pod.yaml'', line = 7, msg = ''name has invalid format '' @ quoted []\<rparr>]\<rparr> = errs \<lparr>reporter.file = ''pod.yaml'', errs = []\<rparr> @ [diag \<lparr>reporter.file = ''pod.yaml'', errs = []\<rparr> 7 (''name has invalid format '' @ quoted [])]"
proof -
  let ?nm = "(Node ScalarNode ''!!str'' ''  '' 4 [])"
  let ?n = "(Node MappingNode ''!!map'' [] 4 [Node ScalarNode ''!!str'' ''name'' 4 [], Node ScalarNode ''!!str'' ''  '' 4 []])"
  let ?cnm = "(Node ScalarNode ''!!str'' [] 7 [])"
  let ?item = "(Node MappingNode ''!!map'' [] 7
       [Node ScalarNode ''!!str'' ''name'' 7 [], Node ScalarNode ''!!str'' [] 7 [],
        Node ScalarNode ''!!str'' ''image'' 8 [],
        Node ScalarNode ''!!str'' ''registry.bigbrother.io/app:1.0'' 8 [],
        Node ScalarNode ''!!str'' ''resources'' 9 [], Node MappingNode ''!!map'' [] 9 []])"
  let ?r = "\<lparr>reporter.file = ''pod.yaml'', errs = []\<rparr>"
  have g: "getField ?n ''name'' = Some (Found ?nm)" "\<not> notStr ?nm" "TrimSpace (Value ?nm) = []"
    by code_simp+
  have v: "validateObjectMeta ?n ?r = Some \<lparr>reporter.file = ''pod.yaml'', errs = [\<lparr>errOut.file = ''pod.yaml'', line = 4, msg = ''name is required''\<rparr>]\<rparr>"
    by code_simp
  have v1: "validateObjectMeta_rev1 ?n ?r = Some \<lparr>reporter.file = ''pod.yaml'', errs = [\<lparr>errOut.file = ''pod.yaml'', line = 4, msg = ''name has invalid format '' @ quoted []\<rparr>]\<rparr>"
    by code_simp
  have cg: "getField ?item ''name'' = Some (Found ?cnm)" "\<not> notStr ?cnm"
    "TrimSpace (Value ?cnm) = []"
    by code_simp+
  have cv: "validateContainer ?item ?r {''web''} = Some (\<lparr>reporter.file = ''pod.yaml'', errs = [\<lparr>errOut.file = ''pod.yaml'', line = 7, msg = ''name is required''\<rparr>]\<rparr>, {''web''})"
    by code_simp
  have cv1: "validatePodSpec_item_rev1 ?item ?r {''web''} = Some (\<lparr>reporter.file = ''pod.yaml'', errs = [\<lparr>errOut.file = ''pod.yaml'', line = 7, msg = ''name has invalid format '' @ quoted []\<rparr>]\<rparr>, {''web''})"
    by code_simp
  note t = empty_name_diagnostic [where n = ?n and nm = ?nm and rep = ?r and item = ?item
      and cnm = ?cnm and crep = ?r and seen = "{''web''}" and seen' = "{''web''}"
      and rep' = "\<lparr>reporter.file = ''pod.yaml'', errs = [\<lparr>errOut.file = ''pod.yaml'', line = 4, msg = ''name is required''\<rparr>]\<rparr>" and crep' = "\<lparr>reporter.file = ''pod.yaml'', errs = [\<lparr>errOut.file = ''pod.yaml'', line = 7, msg = ''name is required''\<rparr>]\<rparr>" and seen1' = "{''web''}"
      and rep1' = "\<lparr>reporter.file = ''pod.yaml'', errs = [\<lparr>errOut.file = ''pod.yaml'', line = 4, msg = ''name has invalid format '' @ quoted []\<rparr>]\<rparr>" and crep1' = "\<lparr>reporter.file = ''pod.yaml'', errs = [\<lparr>errOut.file = ''pod.yaml'', line = 7, msg = ''name has invalid format '' @ quoted []\<rparr>]\<rparr>"]
  note t2a = t [THEN conjunct1, THEN conjunct1]
    and t2b = t [THEN conjunct1, THEN conjunct2, THEN conjunct1]
    and t1a = t [THEN conjunct2, THEN conjunct1]
    and t1b = t [THEN conjunct2, THEN conjunct2]
  from t2a g v have "\<exists>rest. errs \<lparr>reporter.file = ''pod.yaml'', errs = [\<lparr>errOut.file = ''pod.yaml'', line = 4, msg = ''name is required''\<rparr>]\<rparr> = errs ?r @ diag ?r (Line ?nm) ''name is required'' # rest \<and>
      list_all (\<lambda>e. \<not> nameMsg (msg e)) rest"
    by blast
  then have 1: "errs \<lparr>reporter.file = ''pod.yaml'', errs = [\<lparr>errOut.file = ''pod.yaml'', line = 4, msg = ''name is required''\<rparr>]\<rparr> = errs ?r @ [diag ?r 4 ''name is required'']"
    by auto
  from t2b cg cv have "\<exists>rest. errs \<lparr>reporter.file = ''pod.yaml'', errs = [\<lparr>errOut.file = ''pod.yaml'', line = 7, msg = ''name is required''\<rparr>]\<rparr> = errs ?r @ diag ?r (Line ?cnm) ''name is required'' # rest \<and>
      list_all (\<lambda>e. \<not> nameMsg (msg e)) rest"
    by blast
  then have 2: "errs \<lparr>reporter.file = ''pod.yaml'', errs = [\<lparr>errOut.file = ''pod.yaml'', line = 7, msg = ''name is required''\<rparr>]\<rparr> = errs ?r @ [diag ?r 7 ''name is required'']"
    by auto
  from t1a g v1 have "\<exists>rest. errs \<lparr>reporter.file = ''pod.yaml'', errs = [\<lparr>errOut.file = ''pod.yaml'', line = 4, msg = ''name has invalid format '' @ quoted []\<rparr>]\<rparr> = errs ?r @
        diag ?r (Line ?nm) (''name has invalid format '' @ quoted []) # rest \<and>
      list_all (\<lambda>e. \<not> nameMsg (msg e)) rest"
    by blast
  then have 3: "errs \<lparr>reporter.file = ''pod.yaml'', errs = [\<lparr>errOut.file = ''pod.yaml'', line = 4, msg = ''name has invalid format '' @ quoted []\<rparr>]\<rparr> = errs ?r @ [diag ?r 4 (''name has invalid format '' @ quoted [])]"
    by auto
  from t1b cg cv1 have "\<exists>rest. errs \<lparr>reporter.file = ''pod.yaml'', errs = [\<lparr>errOut.file = ''pod.yaml'', line = 7, msg = ''name has invalid format '' @ quoted []\<rparr>]\<rparr> = errs ?r @
        diag ?r (Line ?cnm) (''name has invalid format '' @ quoted (Value ?cnm)) # rest \<and>
      list_all (\<lambda>e. \<not> nameMsg (msg e)) rest"
    by blast
  then have 4: "errs \<lparr>reporter.file = ''pod.yaml'', errs = [\<lparr>errOut.file = ''pod.yaml'', line = 7, msg = ''name has invalid format '' @ quoted []\<rparr>]\<rparr> = errs ?r @ [diag ?r 7 (''name has invalid format '' @ quoted [])]"
    by auto
  from g v v1 cg cv cv1 1 2 3 4 show ?thesis by blast
qed

text \<open>
  The claim as it was stated has the message \<^verbatim>\<open>name is required\<close> for every validator of
  the file. On a metadata mapping with the name of two spaces, and on a container with the
  empty name, the first program appends a diagnostic of an invalid format, and no
  \<^verbatim>\<open>name is required\<close>.
\<close>

theorem empty_name_counterexample:
  "validateObjectMeta_rev1 (Node MappingNode ''!!map'' [] 4 [Node ScalarNode ''!!str'' ''name'' 4 [], Node ScalarNode ''!!str'' ''  '' 4 []]) \<lparr>reporter.file = ''pod.yaml'', errs = []\<rparr> =
     Some \<lparr>reporter.file = ''pod.yaml'', errs = [\<lparr>errOut.file = ''pod.yaml'', line = 4, msg = ''name has invalid format '' @ quoted []\<rparr>]\<rparr> \<and>
   validatePodSpec_item_rev1 (Node MappingNode ''!!map'' [] 7
       [Node ScalarNode ''!!str'' ''name'' 7 [], Node ScalarNode ''!!str'' [] 7 [],
        Node ScalarNode ''!!str'' ''image'' 8 [],
        Node ScalarNode ''!!str'' ''registry.bigbrother.io/app:1.0'' 8 [],
        Node ScalarNode ''!!str'' ''resources'' 9 [], Node MappingNode ''!!map'' [] 9 []]) \<lparr>reporter.file = ''pod.yaml'', errs = []\<rparr> {} =
     Some (\<lparr>reporter.file = ''pod.yaml'', errs = [\<lparr>errOut.file = ''pod.yaml'', line = 7, msg = ''name has invalid format '' @ quoted []\<rparr>]\<rparr>, {}) \<and>
   ''name has invalid format '' @ quoted [] \<noteq> ''name is required''"
  by code_simp

section \<open>Names that are not valid, in both programs\<close>

lemma TrimSpace_duplicate: "TrimSpace ''duplicate'' \<noteq> []"
  by code_simp

lemma invalid_names_first_program:
  "(containersLoop_rev1 items rep seen = Some (rep1', seen1') \<longrightarrow>
      seen1' = seen \<union> nameValues items) \<and>
   (getField item ''name'' = Some (Found nm) \<and> \<not> notStr nm \<and>
    (TrimSpace (Value nm) = [] \<or> \<not> reSnake (Value nm)) \<and>
    validatePodSpec_item_rev1 item crep cseen = Some (crep1', cseen1') \<longrightarrow>
      cseen1' = cseen \<and>
      (\<exists>rest. errs crep1' = errs crep @
          diag crep (Line nm) (''name has invalid format '' @ quoted (Value nm)) # rest \<and>
         list_all (\<lambda>e. \<not> nameMsg (msg e)) rest) \<and>
      filter (\<lambda>e. msg e = duplicateMsg) (newErrs crep crep1') = [])"
proof (intro conjI impI)
  assume "containersLoop_rev1 items rep seen = Some (rep1', seen1')"
  then show "seen1' = seen \<union> nameValues items"
    by (rule containersLoop_rev1_seen)
next
  assume a: "getField item ''name'' = Some (Found nm) \<and> \<not> notStr nm \<and>
    (TrimSpace (Value nm) = [] \<or> \<not> reSnake (Value nm)) \<and>
    validatePodSpec_item_rev1 item crep cseen = Some (crep1', cseen1')"
  let ?d = "diag crep (Line nm) (''name has invalid format '' @ quoted (Value nm))"
  from a have n: "validatePodSpec_name_rev1 item crep cseen = Some (extend crep [?d], cseen)"
    by (auto simp: validatePodSpec_name_rev1_def rep_ops diag_def)
  from a validatePodSpec_item_rev1_split [of item crep cseen crep1' cseen1']
  obtain r1 rest where r1: "validatePodSpec_name_rev1 item crep cseen = Some (r1, cseen1')"
    and e: "errs crep1' = errs r1 @ rest" and o: "list_all (\<lambda>e. \<not> nameMsg (msg e)) rest"
    by blast
  from n r1 show "cseen1' = cseen"
    by simp
  from n r1 have e1: "errs r1 = errs crep @ [?d]"
    by auto
  with e o show "\<exists>rest. errs crep1' = errs crep @ ?d # rest \<and>
         list_all (\<lambda>e. \<not> nameMsg (msg e)) rest"
    by auto
  from a have "Value nm \<noteq> ''duplicate''"
    using TrimSpace_duplicate reSnake_duplicate by auto
  then have "msg ?d \<noteq> duplicateMsg"
    by (simp add: diag_def duplicateMsg_def quoted_def)
  then show "filter (\<lambda>e. msg e = duplicateMsg) (newErrs crep crep1') = []"
    using newErrs_split [OF e1 e] filter_duplicate_other [OF o] by simp
qed

text \<open>
  Claim C9, as amended. In both programs of \<^verbatim>\<open>main.go\<close> the names that the loop over the
  containers registers are exactly the valid ones: those of a string scalar that is not
  empty once trimmed and matches the snake case pattern. A container whose name is a string
  scalar that is empty once trimmed or is not in snake case leaves the set of names as it
  is, whatever it holds; the first diagnostic it gets is its own, at the line of its name;
  it gets no other diagnostic about its name, and none with the text \<^verbatim>\<open>duplicate\<close>. That
  diagnostic is \<^verbatim>\<open>name has invalid format '<value>'\<close> in the first program, and in the
  second program it is \<^verbatim>\<open>name is required\<close> for an empty name and
  \<^verbatim>\<open>name has invalid format '<value>'\<close> otherwise. So of two containers with the same
  invalid name each gets its own diagnostic and neither a duplicate one.
\<close>

theorem invalid_names_not_registered:
  "((containersLoop items rep seen = Some (rep', seen') \<longrightarrow> seen' = seen \<union> nameValues items) \<and>
    (validName item = Some vnm \<longrightarrow>
       Kind vnm = ScalarNode \<and> Tag vnm = ''!!str'' \<and> TrimSpace (Value vnm) \<noteq> [] \<and>
       reSnake (Value vnm)) \<and>
    (getField item ''name'' = Some (Found nm) \<and> \<not> notStr nm \<and>
     (TrimSpace (Value nm) = [] \<or> \<not> reSnake (Value nm)) \<and>
     validateContainer item crep cseen = Some (crep', cseen') \<longrightarrow>
       cseen' = cseen \<and>
       (\<exists>rest. errs crep' = errs crep @
           (if TrimSpace (Value nm) = [] then diag crep (Line nm) ''name is required''
            else diag crep (Line nm) (''name has invalid format '' @ quoted (Value nm))) # rest \<and>
          list_all (\<lambda>e. \<not> nameMsg (msg e)) rest) \<and>
       filter (\<lambda>e. msg e = duplicateMsg) (newErrs crep crep') = [])) \<and>
   ((containersLoop_rev1 items rep seen = Some (rep1', seen1') \<longrightarrow>
       seen1' = seen \<union> nameValues items) \<and>
    (getField item ''name'' = Some (Found nm) \<and> \<not> notStr nm \<and>
     (TrimSpace (Value nm) = [] \<or> \<not> reSnake (Value nm)) \<and>
     validatePodSpec_item_rev1 item crep cseen = Some (crep1', cseen1') \<longrightarrow>
       cseen1' = cseen \<and>
       (\<exists>rest. errs crep1' = errs crep @
           diag crep (Line nm) (''name has invalid format '' @ quoted (Value nm)) # rest \<and>
          list_all (\<lambda>e. \<not> nameMsg (msg e)) rest) \<and>
       filter (\<lambda>e. msg e = duplicateMsg) (newErrs crep crep1') = []))"
  by (rule conjI [OF invalid_names_second_program invalid_names_first_program])

theorem invalid_names_not_registered_witness:
  "containersLoop [(Node MappingNode ''!!map'' [] 7
        [Node ScalarNode ''!!str'' ''name'' 7 [], Node ScalarNode ''!!str'' ''Web'' 7 [],
         Node ScalarNode ''!!str'' ''image'' 8 [],
         Node ScalarNode ''!!str'' ''registry.bigbrother.io/app:1.0'' 8 [],
         Node ScalarNode ''!!str'' ''resources'' 9 [], Node MappingNode ''!!map'' [] 9 []]), (Node MappingNode ''!!map'' [] 10
        [Node ScalarNode ''!!str'' ''name'' 10 [], Node ScalarNode ''!!str'' ''Web'' 10 [],
         Node ScalarNode ''!!str'' ''image'' 11 [],
         Node ScalarNode ''!!str'' ''registry.bigbrother.io/app:1.0'' 11 [],
         Node ScalarNode ''!!str'' ''resources'' 12 [], Node MappingNode ''!!map'' [] 12 []])] \<lparr>reporter.file = ''pod.yaml'', errs = []\<rparr> {} = Some (\<lparr>reporter.file = ''pod.yaml'', errs =
        [\<lparr>errOut.file = ''pod.yaml'', line = 7,
           msg = ''name has invalid format '' @ quoted ''Web''\<rparr>,
         \<lparr>errOut.file = ''pod.yaml'', line = 10,
           msg = ''name has invalid format '' @ quoted ''Web''\<rparr>]\<rparr>, {}) \<and>
   containersLoop_rev1 [(Node MappingNode ''!!map'' [] 7
        [Node ScalarNode ''!!str'' ''name'' 7 [], Node ScalarNode ''!!str'' ''Web'' 7 [],
         Node ScalarNode ''!!str'' ''image'' 8 [],
         Node ScalarNode ''!!str'' ''registry.bigbrother.io/app:1.0'' 8 [],
         Node ScalarNode ''!!str'' ''resources'' 9 [], Node MappingNode ''!!map'' [] 9 []]), (Node MappingNode ''!!map'' [] 10
        [Node ScalarNode ''!!str'' ''name'' 10 [], Node ScalarNode ''!!str'' ''Web'' 10 [],
         Node ScalarNode ''!!str'' ''image'' 11 [],
         Node ScalarNode ''!!str'' ''registry.bigbrother.io/app:1.0'' 11 [],
         Node ScalarNode ''!!str'' ''resources'' 12 [], Node MappingNode ''!!map'' [] 12 []])] \<lparr>reporter.file = ''pod.yaml'', errs = []\<rparr> {} = Some (\<lparr>reporter.file = ''pod.yaml'', errs =
        [\<lparr>errOut.file = ''pod.yaml'', line = 7,
           msg = ''name has invalid format '' @ quoted ''Web''\<rparr>,
         \<lparr>errOut.file = ''pod.yaml'', line = 10,
           msg = ''name has invalid format '' @ quoted ''Web''\<rparr>]\<rparr>, {}) \<and>
   nameValues [(Node MappingNode ''!!map'' [] 7
        [Node ScalarNode ''!!str'' ''name'' 7 [], Node ScalarNode ''!!str'' ''Web'' 7 [],
         Node ScalarNode ''!!str'' ''image'' 8 [],
         Node ScalarNode ''!!str'' ''registry.bigbrother.io/app:1.0'' 8 [],
         Node ScalarNode ''!!str'' ''resources'' 9 [], Node MappingNode ''!!map'' [] 9 []]), (Node MappingNode ''!!map'' [] 10
        [Node ScalarNode ''!!str'' ''name'' 10 [], Node ScalarNode ''!!str'' ''Web'' 10 [],
         Node ScalarNode ''!!str'' ''image'' 11 [],
         Node ScalarNode ''!!str'' ''registry.bigbrother.io/app:1.0'' 11 [],
         Node ScalarNode ''!!str'' ''resources'' 12 [], Node MappingNode ''!!map'' [] 12 []])] = {} \<and>
   validName (Node MappingNode ''!!map'' [] 13
        [Node ScalarNode ''!!str'' ''name'' 13 [], Node ScalarNode ''!!str'' ''web'' 13 [],
         Node ScalarNode ''!!str'' ''image'' 14 [],
         Node ScalarNode ''!!str'' ''registry.bigbrother.io/app:1.0'' 14 [],
         Node ScalarNode ''!!str'' ''resources'' 15 [], Node MappingNode ''!!map'' [] 15 []]) = Some (Node ScalarNode ''!!str'' ''web'' 13 []) \<and>
   reSnake (Value (Node ScalarNode ''!!str'' ''web'' 13 [])) \<and>
   getField (Node MappingNode ''!!map'' [] 7
        [Node ScalarNode ''!!str'' ''name'' 7 [], Node ScalarNode ''!!str'' ''Web'' 7 [],
         Node ScalarNode ''!!str'' ''image'' 8 [],
         Node ScalarNode ''!!str'' ''registry.bigbrother.io/app:1.0'' 8 [],
         Node ScalarNode ''!!str'' ''resources'' 9 [], Node MappingNode ''!!map'' [] 9 []]) ''name'' = Some (Found (Node ScalarNode ''!!str'' ''Web'' 7 [])) \<and>
   \<not> notStr (Node ScalarNode ''!!str'' ''Web'' 7 []) \<and> \<not> reSnake (Value (Node ScalarNode ''!!str'' ''Web'' 7 [])) \<and> TrimSpace (Value (Node ScalarNode ''!!str'' ''Web'' 7 [])) \<noteq> [] \<and>
   validateContainer (Node MappingNode ''!!map'' [] 7
        [Node ScalarNode ''!!str'' ''name'' 7 [], Node ScalarNode ''!!str'' ''Web'' 7 [],
         Node ScalarNode ''!!str'' ''image'' 8 [],
         Node ScalarNode ''!!str'' ''registry.bigbrother.io/app:1.0'' 8 [],
         Node ScalarNode ''!!str'' ''resources'' 9 [], Node MappingNode ''!!map'' [] 9 []]) \<lparr>reporter.file = ''pod.yaml'', errs = []\<rparr> {''web''} = Some (\<lparr>reporter.file = ''pod.yaml'', errs =
        [\<lparr>errOut.file = ''pod.yaml'', line = 7,
           msg = ''name has invalid format '' @ quoted ''Web''\<rparr>]\<rparr>, {''web''}) \<and>
   validatePodSpec_item_rev1 (Node MappingNode ''!!map'' [] 7
        [Node ScalarNode ''!!str'' ''name'' 7 [], Node ScalarNode ''!!str'' ''Web'' 7 [],
         Node ScalarNode ''!!str'' ''image'' 8 [],
         Node ScalarNode ''!!str'' ''registry.bigbrother.io/app:1.0'' 8 [],
         Node ScalarNode ''!!str'' ''resources'' 9 [], Node MappingNode ''!!map'' [] 9 []]) \<lparr>reporter.file = ''pod.yaml'', errs = []\<rparr> {''web''} = Some (\<lparr>reporter.file = ''pod.yaml'', errs =
        [\<lparr>errOut.file = ''pod.yaml'', line = 7,
           msg = ''name has invalid format '' @ quoted ''Web''\<rparr>]\<rparr>, {''web''}) \<and>
   filter (\<lambda>e. msg e = duplicateMsg) (newErrs \<lparr>reporter.file = ''pod.yaml'', errs = []\<rparr> \<lparr>reporter.file = ''pod.yaml'', errs =
        [\<lparr>errOut.file = ''pod.yaml'', line = 7,
           msg = ''name has invalid format '' @ quoted ''Web''\<rparr>]\<rparr>) = [] \<and>
   getField (Node MappingNode ''!!map'' [] 7
        [Node ScalarNode ''!!str'' ''name'' 7 [], Node ScalarNode ''!!str'' [] 7 [],
         Node ScalarNode ''!!str'' ''image'' 8 [],
         Node ScalarNode ''!!str'' ''registry.bigbrother.io/app:1.0'' 8 [],
         Node ScalarNode ''!!str'' ''resources'' 9 [], Node MappingNode ''!!map'' [] 9 []]) ''name'' = Some (Found (Node ScalarNode ''!!str'' [] 7 [])) \<and>
   \<not> notStr (Node ScalarNode ''!!str'' [] 7 []) \<and> TrimSpace (Value (Node ScalarNode ''!!str'' [] 7 [])) = [] \<and>
   validateContainer (Node MappingNode ''!!map'' [] 7
        [Node ScalarNode ''!!str'' ''name'' 7 [], Node ScalarNode ''!!str'' [] 7 [],
         Node ScalarNode ''!!str'' ''image'' 8 [],
         Node ScalarNode ''!!str'' ''registry.bigbrother.io/app:1.0'' 8 [],
         Node ScalarNode ''!!str'' ''resources'' 9 [], Node MappingNode ''!!map'' [] 9 []]) \<lparr>reporter.file = ''pod.yaml'', errs = []\<rparr> {''web''} = Some (\<lparr>reporter.file = ''pod.yaml'', errs =
        [\<lparr>errOut.file = ''pod.yaml'', line = 7,
           msg = ''name is required''\<rparr>]\<rparr>, {''web''}) \<and>
   validatePodSpec_item_rev1 (Node MappingNode ''!!map'' [] 7
        [Node ScalarNode ''!!str'' ''name'' 7 [], Node ScalarNode ''!!str'' [] 7 [],
         Node ScalarNode ''!!str'' ''image'' 8 [],
         Node ScalarNode ''!!str'' ''registry.bigbrother.io/app:1.0'' 8 [],
         Node ScalarNode ''!!str'' ''resources'' 9 [], Node MappingNode ''!!map'' [] 9 []]) \<lparr>reporter.file = ''pod.yaml'', errs = []\<rparr> {''web''} = Some (\<lparr>reporter.file = ''pod.yaml'', errs =
        [\<lparr>errOut.file = ''pod.yaml'', line = 7,
           msg = ''name has invalid format '' @ quoted []\<rparr>]\<rparr>, {''web''}) \<and>
   filter (\<lambda>e. msg e = duplicateMsg) (newErrs \<lparr>reporter.file = ''pod.yaml'', errs = []\<rparr> \<lparr>reporter.file = ''pod.yaml'', errs =
        [\<lparr>errOut.file = ''pod.yaml'', line = 7,
           msg = ''name is required''\<rparr>]\<rparr>) = [] \<and>
   filter (\<lambda>e. msg e = duplicateMsg) (newErrs \<lparr>reporter.file = ''pod.yaml'', errs = []\<rparr> \<lparr>reporter.file = ''pod.yaml'', errs =
        [\<lparr>errOut.file = ''pod.yaml'', line = 7,
           msg = ''name has invalid format '' @ quoted []\<rparr>]\<rparr>) = []"
proof -
  let ?b1 = "(Node MappingNode ''!!map'' [] 7
        [Node ScalarNode ''!!str'' ''name'' 7 [], Node ScalarNode ''!!str'' ''Web'' 7 [],
         Node ScalarNode ''!!str'' ''image'' 8 [],
         Node ScalarNode ''!!str'' ''registry.bigbrother.io/app:1.0'' 8 [],
         Node ScalarNode ''!!str'' ''resources'' 9 [], Node MappingNode ''!!map'' [] 9 []])"
  let ?b2 = "(Node MappingNode ''!!map'' [] 10
        [Node ScalarNode ''!!str'' ''name'' 10 [], Node ScalarNode ''!!str'' ''Web'' 10 [],
         Node ScalarNode ''!!str'' ''image'' 11 [],
         Node ScalarNode ''!!str'' ''registry.bigbrother.io/app:1.0'' 11 [],
         Node ScalarNode ''!!str'' ''resources'' 12 [], Node MappingNode ''!!map'' [] 12 []])"
  let ?e1 = "(Node MappingNode ''!!map'' [] 7
        [Node ScalarNode ''!!str'' ''name'' 7 [], Node ScalarNode ''!!str'' [] 7 [],
         Node ScalarNode ''!!str'' ''image'' 8 [],
         Node ScalarNode ''!!str'' ''registry.bigbrother.io/app:1.0'' 8 [],
         Node ScalarNode ''!!str'' ''resources'' 9 [], Node MappingNode ''!!map'' [] 9 []])"
  let ?w1 = "(Node MappingNode ''!!map'' [] 13
        [Node ScalarNode ''!!str'' ''name'' 13 [], Node ScalarNode ''!!str'' ''web'' 13 [],
         Node ScalarNode ''!!str'' ''image'' 14 [],
         Node ScalarNode ''!!str'' ''registry.bigbrother.io/app:1.0'' 14 [],
         Node ScalarNode ''!!str'' ''resources'' 15 [], Node MappingNode ''!!map'' [] 15 []])"
  let ?nb = "(Node ScalarNode ''!!str'' ''Web'' 7 [])"
  let ?ne = "(Node ScalarNode ''!!str'' [] 7 [])"
  let ?nw = "(Node ScalarNode ''!!str'' ''web'' 13 [])"
  let ?r = "\<lparr>reporter.file = ''pod.yaml'', errs = []\<rparr>"
  have l: "containersLoop [?b1, ?b2] ?r {} = Some (\<lparr>reporter.file = ''pod.yaml'', errs =
        [\<lparr>errOut.file = ''pod.yaml'', line = 7,
           msg = ''name has invalid format '' @ quoted ''Web''\<rparr>,
         \<lparr>errOut.file = ''pod.yaml'', line = 10,
           msg = ''name has invalid format '' @ quoted ''Web''\<rparr>]\<rparr>, {})"
    by code_simp
  have l1: "containersLoop_rev1 [?b1, ?b2] ?r {} = Some (\<lparr>reporter.file = ''pod.yaml'', errs =
        [\<lparr>errOut.file = ''pod.yaml'', line = 7,
           msg = ''name has invalid format '' @ quoted ''Web''\<rparr>,
         \<lparr>errOut.file = ''pod.yaml'', line = 10,
           msg = ''name has invalid format '' @ quoted ''Web''\<rparr>]\<rparr>, {})"
    by code_simp
  have v: "validName ?w1 = Some ?nw"
    by code_simp
  have g: "getField ?b1 ''name'' = Some (Found ?nb)" "\<not> notStr ?nb" "\<not> reSnake (Value ?nb)"
    "TrimSpace (Value ?nb) \<noteq> []"
    by code_simp+
  have c: "validateContainer ?b1 ?r {''web''} = Some (\<lparr>reporter.file = ''pod.yaml'', errs =
        [\<lparr>errOut.file = ''pod.yaml'', line = 7,
           msg = ''name has invalid format '' @ quoted ''Web''\<rparr>]\<rparr>, {''web''})"
    by code_simp
  have c1: "validatePodSpec_item_rev1 ?b1 ?r {''web''} = Some (\<lparr>reporter.file = ''pod.yaml'', errs =
        [\<lparr>errOut.file = ''pod.yaml'', line = 7,
           msg = ''name has invalid format '' @ quoted ''Web''\<rparr>]\<rparr>, {''web''})"
    by code_simp
  have h: "getField ?e1 ''name'' = Some (Found ?ne)" "\<not> notStr ?ne" "TrimSpace (Value ?ne) = []"
    by code_simp+
  have d: "validateContainer ?e1 ?r {''web''} = Some (\<lparr>reporter.file = ''pod.yaml'', errs =
        [\<lparr>errOut.file = ''pod.yaml'', line = 7,
           msg = ''name is required''\<rparr>]\<rparr>, {''web''})"
    by code_simp
  have d1: "validatePodSpec_item_rev1 ?e1 ?r {''web''} = Some (\<lparr>reporter.file = ''pod.yaml'', errs =
        [\<lparr>errOut.file = ''pod.yaml'', line = 7,
           msg = ''name has invalid format '' @ quoted []\<rparr>]\<rparr>, {''web''})"
    by code_simp
  note t = invalid_names_not_registered [where items = "[?b1, ?b2]" and rep = ?r and seen = "{}"
      and rep' = "\<lparr>reporter.file = ''pod.yaml'', errs =
        [\<lparr>errOut.file = ''pod.yaml'', line = 7,
           msg = ''name has invalid format '' @ quoted ''Web''\<rparr>,
         \<lparr>errOut.file = ''pod.yaml'', line = 10,
           msg = ''name has invalid format '' @ quoted ''Web''\<rparr>]\<rparr>" and seen' = "{}" and rep1' = "\<lparr>reporter.file = ''pod.yaml'', errs =
        [\<lparr>errOut.file = ''pod.yaml'', line = 7,
           msg = ''name has invalid format '' @ quoted ''Web''\<rparr>,
         \<lparr>errOut.file = ''pod.yaml'', line = 10,
           msg = ''name has invalid format '' @ quoted ''Web''\<rparr>]\<rparr>" and seen1' = "{}"
      and item = ?w1 and vnm = ?nw]
  from t [THEN conjunct1, THEN conjunct1] l have 1: "nameValues [?b1, ?b2] = {}"
    by simp
  from t [THEN conjunct1, THEN conjunct2, THEN conjunct1] v have 2: "reSnake (Value ?nw)"
    by blast
  note u = invalid_names_not_registered [where item = ?b1 and nm = ?nb and crep = ?r
      and cseen = "{''web''}" and crep' = "\<lparr>reporter.file = ''pod.yaml'', errs =
        [\<lparr>errOut.file = ''pod.yaml'', line = 7,
           msg = ''name has invalid format '' @ quoted ''Web''\<rparr>]\<rparr>" and cseen' = "{''web''}"
      and crep1' = "\<lparr>reporter.file = ''pod.yaml'', errs =
        [\<lparr>errOut.file = ''pod.yaml'', line = 7,
           msg = ''name has invalid format '' @ quoted ''Web''\<rparr>]\<rparr>" and cseen1' = "{''web''}"]
  from u [THEN conjunct1, THEN conjunct2, THEN conjunct2] g c
  have 3: "filter (\<lambda>e. msg e = duplicateMsg) (newErrs ?r \<lparr>reporter.file = ''pod.yaml'', errs =
        [\<lparr>errOut.file = ''pod.yaml'', line = 7,
           msg = ''name has invalid format '' @ quoted ''Web''\<rparr>]\<rparr>) = []"
    by blast
  note w = invalid_names_not_registered [where item = ?e1 and nm = ?ne and crep = ?r
      and cseen = "{''web''}" and crep' = "\<lparr>reporter.file = ''pod.yaml'', errs =
        [\<lparr>errOut.file = ''pod.yaml'', line = 7,
           msg = ''name is required''\<rparr>]\<rparr>" and cseen' = "{''web''}"
      and crep1' = "\<lparr>reporter.file = ''pod.yaml'', errs =
        [\<lparr>errOut.file = ''pod.yaml'', line = 7,
           msg = ''name has invalid format '' @ quoted []\<rparr>]\<rparr>" and cseen1' = "{''web''}"]
  from w [THEN conjunct1, THEN conjunct2, THEN conjunct2] h d
  have 4: "filter (\<lambda>e. msg e = duplicateMsg) (newErrs ?r \<lparr>reporter.file = ''pod.yaml'', errs =
        [\<lparr>errOut.file = ''pod.yaml'', line = 7,
           msg = ''name is required''\<rparr>]\<rparr>) = []"
    by blast
  from w [THEN conjunct2, THEN conjunct2] h d1
  have 5: "filter (\<lambda>e. msg e = duplicateMsg) (newErrs ?r \<lparr>reporter.file = ''pod.yaml'', errs =
        [\<lparr>errOut.file = ''pod.yaml'', line = 7,
           msg = ''name has invalid format '' @ quoted []\<rparr>]\<rparr>) = []"
    by blast
  from l l1 1 v 2 g c c1 3 h d d1 4 5 show ?thesis
    by blast
qed

text \<open>
  The claim as it was stated gives a format diagnostic to each of two containers with the
  same empty name. In the second program each gets \<^verbatim>\<open>name is required\<close> at its line,
  which is not a format diagnostic, and nothing else; in the first program each gets the
  format diagnostic.
\<close>

theorem invalid_names_counterexample:
  "containersLoop
     [(Node MappingNode ''!!map'' [] 7
        [Node ScalarNode ''!!str'' ''name'' 7 [], Node ScalarNode ''!!str'' [] 7 [],
         Node ScalarNode ''!!str'' ''image'' 8 [],
         Node ScalarNode ''!!str'' ''registry.bigbrother.io/app:1.0'' 8 [],
         Node ScalarNode ''!!str'' ''resources'' 9 [], Node MappingNode ''!!map'' [] 9 []]),
      (Node MappingNode ''!!map'' [] 10
        [Node ScalarNode ''!!str'' ''name'' 10 [], Node ScalarNode ''!!str'' [] 10 [],
         Node ScalarNode ''!!str'' ''image'' 11 [],
         Node ScalarNode ''!!str'' ''registry.bigbrother.io/app:1.0'' 11 [],
         Node ScalarNode ''!!str'' ''resources'' 12 [], Node MappingNode ''!!map'' [] 12 []])]
     \<lparr>reporter.file = ''pod.yaml'', errs = []\<rparr> {} =
   Some (\<lparr>reporter.file = ''pod.yaml'', errs =
           [\<lparr>errOut.file = ''pod.yaml'', line = 7, msg = ''name is required''\<rparr>,
            \<lparr>errOut.file = ''pod.yaml'', line = 10, msg = ''name is required''\<rparr>]\<rparr>, {}) \<and>
   \<not> HasPrefix ''name is required'' ''name has invalid format'' \<and>
   containersLoop_rev1
     [(Node MappingNode ''!!map'' [] 7
        [Node ScalarNode ''!!str'' ''name'' 7 [], Node ScalarNode ''!!str'' [] 7 [],
         Node ScalarNode ''!!str'' ''image'' 8 [],
         Node ScalarNode ''!!str'' ''registry.bigbrother.io/app:1.0'' 8 [],
         Node ScalarNode ''!!str'' ''resources'' 9 [], Node MappingNode ''!!map'' [] 9 []]),
      (Node MappingNode ''!!map'' [] 10
        [Node ScalarNode ''!!str'' ''name'' 10 [], Node ScalarNode ''!!str'' [] 10 [],
         Node ScalarNode ''!!str'' ''image'' 11 [],
         Node ScalarNode ''!!str'' ''registry.bigbrother.io/app:1.0'' 11 [],
         Node ScalarNode ''!!str'' ''resources'' 12 [], Node MappingNode ''!!map'' [] 12 []])]
     \<lparr>reporter.file = ''pod.yaml'', errs = []\<rparr> {} =
   Some (\<lparr>reporter.file = ''pod.yaml'', errs =
        [\<lparr>errOut.file = ''pod.yaml'', line = 7,
           msg = ''name has invalid format '' @ quoted []\<rparr>,
         \<lparr>errOut.file = ''pod.yaml'', line = 10,
           msg = ''name has invalid format '' @ quoted []\<rparr>]\<rparr>, {})"
  by code_simp

end
